theory Spec2Isabelle
  imports Complex_Main "HOL-Library.Sublist"
begin

section \<open>Python strings and small library functions\<close>

text \<open>
  Exception messages and HTTP details are modelled as \<open>string\<close>, read as Python text
  whose code points are below 256. \<open>sublist sub s\<close> is Python's \<^verbatim>\<open>sub in s\<close>.
  \<open>str_lower\<close> is \<^verbatim>\<open>str.lower()\<close> on that range: the letters A-Z and the capital
  letters of Latin-1 (U+00C0 to U+00DE without the multiplication sign U+00D7) move up
  by 32, everything else is kept.
\<close>

definition lower_char :: "char \<Rightarrow> char" where
  "lower_char c =
     (let n = (of_char c :: nat)
      in if (65 \<le> n \<and> n \<le> 90) \<or> (192 \<le> n \<and> n \<le> 222 \<and> n \<noteq> 215)
         then char_of (n + 32) else c)"

definition str_lower :: "string \<Rightarrow> string" where
  "str_lower s = map lower_char s"

text \<open>\<^verbatim>\<open>str(n)\<close> for a non-negative and for any integer: decimal digits, a minus sign.\<close>

definition digit_char :: "nat \<Rightarrow> char" where
  "digit_char d = char_of (48 + d)"

fun str_nat :: "nat \<Rightarrow> string" where
  "str_nat n = (if n < 10 then [digit_char n] else str_nat (n div 10) @ [digit_char (n mod 10)])"

declare str_nat.simps [simp del]

definition str_int :: "int \<Rightarrow> string" where
  "str_int i = (if i < 0 then CHR ''-'' # str_nat (nat (- i)) else str_nat (nat i))"

section \<open>The resilient database executor (Backend/main.py, DatabaseManager)\<close>

definition MAX_RETRIES :: nat where
  "MAX_RETRIES = 3"

definition RETRY_DELAY :: real where
  "RETRY_DELAY = 1 / 10"

text \<open>
  What one pass through the body of the \<^verbatim>\<open>try\<close> block meets. The database file, the
  SQLite library and the other processes holding the file are the environment of the
  function: per loop iteration the environment either has no file at \<^verbatim>\<open>db_path\<close>
  (\<^verbatim>\<open>os.path.exists\<close> is false and the code raises \<^verbatim>\<open>FileNotFoundError\<close> before it
  opens anything), or the connection is opened and then some statement inside the
  \<^verbatim>\<open>async with\<close> block raises \<^verbatim>\<open>sqlite3.DatabaseError\<close> (or a subclass) with the given
  \<^verbatim>\<open>str(e)\<close>, or raises some other \<^verbatim>\<open>Exception\<close>, or everything up to the commit
  goes through and the cursor holds the given rows.
\<close>

datatype 'row attempt_outcome =
    File_Missing
  | Database_Error string
  | Other_Exception string
  | Cursor_Rows "'row list"

text \<open>The value the function returns: \<^verbatim>\<open>None\<close>, one row, or the list of all rows.\<close>

datatype 'row query_result =
    Py_None
  | One_Row 'row
  | All_Rows "'row list"

text \<open>What an observer of the call sees: connections opened and back-off sleeps.\<close>

datatype db_event =
    Physical_Attempt
  | Sleep real

text \<open>\<^verbatim>\<open>cursor.fetchone()\<close> gives the first row, or \<^verbatim>\<open>None\<close> when there is none.\<close>

definition fetchone :: "'row list \<Rightarrow> 'row query_result" where
  "fetchone rows = (case rows of [] \<Rightarrow> Py_None | r # _ \<Rightarrow> One_Row r)"

definition fetch_result :: "bool \<Rightarrow> bool \<Rightarrow> 'row list \<Rightarrow> 'row query_result" where
  "fetch_result fetch_one fetch_all rows =
     (if fetch_one then fetchone rows
      else if fetch_all then All_Rows rows
      else Py_None)"

text \<open>\<^verbatim>\<open>str(last_exception)\<close>, where \<^verbatim>\<open>last_exception\<close> starts as \<^verbatim>\<open>None\<close>.\<close>

definition str_last :: "string option \<Rightarrow> string" where
  "str_last last_exception = (case last_exception of None \<Rightarrow> ''None'' | Some m \<Rightarrow> m)"

definition corrupted_message :: string where
  "corrupted_message =
     ''Database is corrupted. Please contact administrator to restore database.''"

definition schema_message :: string where
  "schema_message = ''Required database tables not found. Please check database schema.''"

definition not_accessible_message :: string where
  "not_accessible_message =
     ''Database file not accessible. Please check network connection and file permissions.''"

definition exhausted_message :: "string option \<Rightarrow> string" where
  "exhausted_message last_exception =
     ''Database operation failed after '' @ str_nat MAX_RETRIES
       @ '' attempts. Last error: '' @ str_last last_exception"

text \<open>
  The \<^verbatim>\<open>for attempt in range(MAX_RETRIES)\<close> loop, from iteration \<open>attempt\<close> on, with the
  value of \<^verbatim>\<open>last_exception\<close> and the events so far. \<open>db attempt\<close> is what the
  environment does in that iteration. The result is the raised \<^verbatim>\<open>Exception\<close>'s message
  (\<open>Inl\<close>) or the returned value (\<open>Inr\<close>), and the events. A \<^verbatim>\<open>continue\<close> and the fall
  through the end of the \<^verbatim>\<open>except\<close> block both go to the next iteration; after the last
  one comes the \<^verbatim>\<open>raise\<close> below the loop.
\<close>

function retry_loop ::
  "(nat \<Rightarrow> 'row attempt_outcome) \<Rightarrow> bool \<Rightarrow> bool \<Rightarrow> nat \<Rightarrow> string option \<Rightarrow> db_event list
     \<Rightarrow> (string + 'row query_result) \<times> db_event list" where
  "retry_loop db fetch_one fetch_all attempt last_exception evs =
     (if attempt < MAX_RETRIES then
        (case db attempt of
           File_Missing \<Rightarrow> (Inl not_accessible_message, evs)
         | Cursor_Rows rows \<Rightarrow>
             (Inr (fetch_result fetch_one fetch_all rows), evs @ [Physical_Attempt])
         | Database_Error e \<Rightarrow>
             (let error_msg = str_lower e in
              if sublist ''database is locked'' error_msg then
                (if attempt < MAX_RETRIES - 1
                 then retry_loop db fetch_one fetch_all (Suc attempt) (Some e)
                        (evs @ [Physical_Attempt, Sleep (RETRY_DELAY * 2 ^ attempt)])
                 else retry_loop db fetch_one fetch_all (Suc attempt) (Some e)
                        (evs @ [Physical_Attempt]))
              else if sublist ''database disk image is malformed'' error_msg then
                (Inl corrupted_message, evs @ [Physical_Attempt])
              else if sublist ''no such table'' error_msg then
                (Inl schema_message, evs @ [Physical_Attempt])
              else
                (if attempt < MAX_RETRIES - 1
                 then retry_loop db fetch_one fetch_all (Suc attempt) (Some e)
                        (evs @ [Physical_Attempt, Sleep (RETRY_DELAY * 2 ^ attempt)])
                 else (Inl (''Database error: '' @ e), evs @ [Physical_Attempt])))
         | Other_Exception e \<Rightarrow>
             (if attempt < MAX_RETRIES - 1
              then retry_loop db fetch_one fetch_all (Suc attempt) (Some e)
                     (evs @ [Physical_Attempt, Sleep (RETRY_DELAY * 2 ^ attempt)])
              else (Inl (''Database connection failed: '' @ e), evs @ [Physical_Attempt])))
      else (Inl (exhausted_message last_exception), evs))"
  by pat_completeness auto
termination
  by (relation "measure (\<lambda>(db, fo, fa, attempt, last, evs). MAX_RETRIES - attempt)") auto

declare retry_loop.simps [simp del]

text \<open>
  \<^verbatim>\<open>execute_with_retry(query, params, fetch_one, fetch_all, commit)\<close>: the environment
  \<open>db\<close> is asked what happens to this statement in each iteration.
\<close>

definition execute_with_retry ::
  "(string \<Rightarrow> 'p list \<Rightarrow> bool \<Rightarrow> nat \<Rightarrow> 'row attempt_outcome) \<Rightarrow> string \<Rightarrow> 'p list
     \<Rightarrow> bool \<Rightarrow> bool \<Rightarrow> bool \<Rightarrow> (string + 'row query_result) \<times> db_event list" where
  "execute_with_retry db query params fetch_one fetch_all commit =
     retry_loop (db query params commit) fetch_one fetch_all 0 None []"


subsection \<open>Vocabulary for the executor's traces\<close>

text \<open>
  An iteration that ends in a back-off sleep and a \<^verbatim>\<open>continue\<close> when it is not the last one:
  a lock error, a database error with neither fatal signature, or any other exception.
\<close>

definition retried :: "'row attempt_outcome \<Rightarrow> bool" where
  "retried out =
     (case out of
        Database_Error e \<Rightarrow>
          sublist ''database is locked'' (str_lower e)
          \<or> (\<not> sublist ''database disk image is malformed'' (str_lower e)
              \<and> \<not> sublist ''no such table'' (str_lower e))
      | Other_Exception e \<Rightarrow> True
      | _ \<Rightarrow> False)"

definition raised_message :: "'row attempt_outcome \<Rightarrow> string option" where
  "raised_message out =
     (case out of Database_Error e \<Rightarrow> Some e | Other_Exception e \<Rightarrow> Some e | _ \<Rightarrow> None)"

text \<open>The events of \<open>k\<close> iterations that each opened a connection and then slept.\<close>

fun backoff :: "nat \<Rightarrow> db_event list" where
  "backoff 0 = []"
| "backoff (Suc k) = backoff k @ [Physical_Attempt, Sleep (RETRY_DELAY * 2 ^ k)]"

text \<open>The longest trace \<open>n\<close> more iterations can leave, starting at iteration \<open>attempt\<close>.\<close>

fun rest_schedule :: "nat \<Rightarrow> nat \<Rightarrow> db_event list" where
  "rest_schedule 0 attempt = []"
| "rest_schedule (Suc n) attempt =
     Physical_Attempt #
       (if n = 0 then [] else Sleep (RETRY_DELAY * 2 ^ attempt) # rest_schedule n (Suc attempt))"

text \<open>
  For each physical attempt of a trace, in order, all the sleeps between the previous
  attempt (or the start of the call) and it, in the order they were slept.
\<close>

fun sleeps_between :: "real list \<Rightarrow> db_event list \<Rightarrow> real list list" where
  "sleeps_between pending [] = []"
| "sleeps_between pending (Physical_Attempt # evs) = pending # sleeps_between [] evs"
| "sleeps_between pending (Sleep d # evs) = sleeps_between (pending @ [d]) evs"

definition attempt_sleeps :: "db_event list \<Rightarrow> real list list" where
  "attempt_sleeps evs = sleeps_between [] evs"

definition sleeps :: "db_event list \<Rightarrow> real list" where
  "sleeps evs = concat (map (\<lambda>ev. case ev of Sleep d \<Rightarrow> [d] | Physical_Attempt \<Rightarrow> []) evs)"

definition physical_attempts :: "db_event list \<Rightarrow> nat" where
  "physical_attempts evs = length (filter (\<lambda>ev. ev = Physical_Attempt) evs)"

section \<open>JSON text, as \<^verbatim>\<open>send_prompt\<close> uses the \<^verbatim>\<open>json\<close> module\<close>

text \<open>
  A Python \<^verbatim>\<open>str\<close> that goes into or comes out of JSON is a list of code points; every
  code point of a \<^verbatim>\<open>str\<close> is below \<open>0x110000\<close>, and the surrogates \<open>0xD800\<close> to
  \<open>0xDFFF\<close> may occur on their own. \<open>py\<close> reads an 8-bit literal as such a list. JSON
  text itself is a \<open>string\<close>: what \<^verbatim>\<open>json.dumps\<close> writes is ASCII.
\<close>

type_synonym pystr = "nat list"

definition py :: "string \<Rightarrow> pystr" where
  "py s = map of_char s"

definition is_pystr :: "pystr \<Rightarrow> bool" where
  "is_pystr s = (\<forall>c \<in> set s. c < 0x110000)"

text \<open>
  The values the envelopes hold. A float is kept as its \<^verbatim>\<open>repr\<close>, the text
  \<^verbatim>\<open>json.dumps\<close> writes for it.
\<close>

datatype jvalue =
    JNull
  | JInt int
  | JFloat string
  | JStr pystr

text \<open>A \<^verbatim>\<open>dict\<close> with \<^verbatim>\<open>str\<close> keys, in insertion order.\<close>

type_synonym pydict = "(pystr \<times> jvalue) list"

fun dict_set :: "pystr \<Rightarrow> jvalue \<Rightarrow> pydict \<Rightarrow> pydict" where
  "dict_set k v [] = [(k, v)]"
| "dict_set k v ((k', v') # d) = (if k = k' then (k, v) # d else (k', v') # dict_set k v d)"

definition dict_of_pairs :: "(pystr \<times> jvalue) list \<Rightarrow> pydict" where
  "dict_of_pairs ps = foldl (\<lambda>d (k, v). dict_set k v d) [] ps"

subsection \<open>\<^verbatim>\<open>json.dumps\<close> with its defaults (\<^verbatim>\<open>ensure_ascii=True\<close>, separators \<^verbatim>\<open>", "\<close> and \<^verbatim>\<open>": "\<close>)\<close>

definition hex_digit :: "nat \<Rightarrow> char" where
  "hex_digit d = ''0123456789abcdef'' ! d"

text \<open>\<^verbatim>\<open>'{0:04x}'.format(n)\<close> for \<open>n < 0x10000\<close>.\<close>

definition hex4 :: "nat \<Rightarrow> string" where
  "hex4 n = [hex_digit (n div 4096 mod 16), hex_digit (n div 256 mod 16),
             hex_digit (n div 16 mod 16), hex_digit (n mod 16)]"

text \<open>
  One code point, as \<^verbatim>\<open>encode_basestring_ascii\<close> writes it: the short escapes, printable
  ASCII as it is, \<^verbatim>\<open>\uXXXX\<close> below \<open>0x10000\<close>, and a pair of surrogate escapes above
  (\<^verbatim>\<open>0xd800 | ((n >> 10) & 0x3ff)\<close> and \<^verbatim>\<open>0xdc00 | (n & 0x3ff)\<close>, written with
  \<open>div\<close> and \<open>mod\<close>).
\<close>

definition escape_char :: "nat \<Rightarrow> string" where
  "escape_char c =
     (if c = 0x22 then [CHR 0x5C, CHR 0x22]
      else if c = 0x5C then [CHR 0x5C, CHR 0x5C]
      else if c = 0x0A then [CHR 0x5C, CHR ''n'']
      else if c = 0x0D then [CHR 0x5C, CHR ''r'']
      else if c = 0x09 then [CHR 0x5C, CHR ''t'']
      else if c = 0x08 then [CHR 0x5C, CHR ''b'']
      else if c = 0x0C then [CHR 0x5C, CHR ''f'']
      else if 0x20 \<le> c \<and> c \<le> 0x7E then [char_of c]
      else if c < 0x10000 then CHR 0x5C # CHR ''u'' # hex4 c
      else (let n = c - 0x10000;
                s1 = 0xD800 + n div 1024 mod 1024;
                s2 = 0xDC00 + n mod 1024
            in CHR 0x5C # CHR ''u'' # hex4 s1 @ CHR 0x5C # CHR ''u'' # hex4 s2))"

definition encode_basestring_ascii :: "pystr \<Rightarrow> string" where
  "encode_basestring_ascii s = CHR 0x22 # concat (map escape_char s) @ [CHR 0x22]"

definition dumps_float :: "string \<Rightarrow> string" where
  "dumps_float r =
     (if r = ''nan'' then ''NaN''
      else if r = ''inf'' then ''Infinity''
      else if r = ''-inf'' then ''-Infinity''
      else r)"

definition dumps_value :: "jvalue \<Rightarrow> string" where
  "dumps_value v =
     (case v of
        JNull \<Rightarrow> ''null''
      | JInt i \<Rightarrow> str_int i
      | JFloat r \<Rightarrow> dumps_float r
      | JStr s \<Rightarrow> encode_basestring_ascii s)"

definition dumps_member :: "pystr \<times> jvalue \<Rightarrow> string" where
  "dumps_member m = encode_basestring_ascii (fst m) @ '': '' @ dumps_value (snd m)"

fun dumps_members :: "pydict \<Rightarrow> string" where
  "dumps_members [] = []"
| "dumps_members [m] = dumps_member m"
| "dumps_members (m # ms) = dumps_member m @ '', '' @ dumps_members ms"

definition json_dumps :: "pydict \<Rightarrow> string" where
  "json_dumps d = CHR ''{'' # dumps_members d @ ''}''"

subsection \<open>\<^verbatim>\<open>json.loads\<close>, for objects whose members are strings\<close>

definition hex_value :: "char \<Rightarrow> nat option" where
  "hex_value c =
     (let n = (of_char c :: nat)
      in if 48 \<le> n \<and> n \<le> 57 then Some (n - 48)
         else if 97 \<le> n \<and> n \<le> 102 then Some (n - 87)
         else if 65 \<le> n \<and> n \<le> 70 then Some (n - 55)
         else None)"

text \<open>The four hexadecimal digits after \<^verbatim>\<open>\u\<close>, as the C scanner reads them.\<close>

definition decode_uXXXX :: "char \<Rightarrow> char \<Rightarrow> char \<Rightarrow> char \<Rightarrow> nat option" where
  "decode_uXXXX a b c d =
     (case (hex_value a, hex_value b, hex_value c, hex_value d) of
        (Some x3, Some x2, Some x1, Some x0) \<Rightarrow> Some (x3 * 4096 + x2 * 256 + x1 * 16 + x0)
      | _ \<Rightarrow> None)"

definition backslash_escape :: "char \<Rightarrow> nat option" where
  "backslash_escape e =
     (if e = CHR 0x22 then Some 0x22
      else if e = CHR 0x5C then Some 0x5C
      else if e = CHR ''/'' then Some 0x2F
      else if e = CHR ''b'' then Some 0x08
      else if e = CHR ''f'' then Some 0x0C
      else if e = CHR ''n'' then Some 0x0A
      else if e = CHR ''r'' then Some 0x0D
      else if e = CHR ''t'' then Some 0x09
      else None)"

definition emit :: "nat \<Rightarrow> (pystr \<times> string) option \<Rightarrow> (pystr \<times> string) option" where
  "emit c r = (case r of None \<Rightarrow> None | Some (s, rest) \<Rightarrow> Some (c # s, rest))"

text \<open>
  \<^verbatim>\<open>scanstring\<close> in strict mode, from just after the opening quote: the decoded string and
  the text after the closing quote, or \<open>None\<close> for a \<^verbatim>\<open>JSONDecodeError\<close>. A
  \<^verbatim>\<open>\uXXXX\<close> escape of a high surrogate that is followed by the escape of a low surrogate
  is joined with it into one code point.
\<close>

fun scanstring :: "string \<Rightarrow> (pystr \<times> string) option" where
  "scanstring [] = None"
| "scanstring (c # cs) =
     (if c = CHR 0x22 then Some ([], cs)
      else if c = CHR 0x5C then
        (case cs of
           [] \<Rightarrow> None
         | e # es \<Rightarrow>
             if e = CHR ''u'' then
               (case es of
                  h3 # h2 # h1 # h0 # fs \<Rightarrow>
                    (case decode_uXXXX h3 h2 h1 h0 of
                       None \<Rightarrow> None
                     | Some uni \<Rightarrow>
                         (case fs of
                            b # u # l3 # l2 # l1 # l0 # gs \<Rightarrow>
                              if 0xD800 \<le> uni \<and> uni \<le> 0xDBFF \<and> b = CHR 0x5C \<and> u = CHR ''u'' then
                                (case decode_uXXXX l3 l2 l1 l0 of
                                   None \<Rightarrow> None
                                 | Some uni2 \<Rightarrow>
                                     if 0xDC00 \<le> uni2 \<and> uni2 \<le> 0xDFFF
                                     then emit (0x10000 + ((uni - 0xD800) * 1024 + (uni2 - 0xDC00)))
                                            (scanstring gs)
                                     else emit uni (scanstring fs))
                              else emit uni (scanstring fs)
                          | _ \<Rightarrow> emit uni (scanstring fs)))
                | _ \<Rightarrow> None)
             else
               (case backslash_escape e of
                  None \<Rightarrow> None
                | Some ch \<Rightarrow> emit ch (scanstring es)))
      else if (of_char c :: nat) < 0x20 then None
      else emit (of_char c) (scanstring cs))"

definition is_ws :: "char \<Rightarrow> bool" where
  "is_ws c = (c = CHR 0x20 \<or> c = CHR 0x09 \<or> c = CHR 0x0A \<or> c = CHR 0x0D)"

definition skip_ws :: "string \<Rightarrow> string" where
  "skip_ws s = dropWhile is_ws s"

text \<open>
  A member's value. This model decodes string values only: on a number, a literal, an array
  or a nested object it gives \<open>None\<close> although the library decodes them, so \<open>None\<close> from
  \<open>json_loads\<close> means a \<^verbatim>\<open>JSONDecodeError\<close> or a text outside this fragment.
\<close>

definition parse_value :: "string \<Rightarrow> (jvalue \<times> string) option" where
  "parse_value s =
     (case s of
        [] \<Rightarrow> None
      | q # s1 \<Rightarrow>
          if q = CHR 0x22 then
            (case scanstring s1 of None \<Rightarrow> None | Some (v, r) \<Rightarrow> Some (JStr v, r))
          else None)"

text \<open>
  The members of an object, from the opening quote of a key to after the closing brace,
  as \<^verbatim>\<open>JSONObject\<close> reads them. The first argument bounds the number of members read;
  \<open>json_loads\<close> passes the length of the text, which no object in it exceeds.
\<close>

fun parse_members :: "nat \<Rightarrow> string \<Rightarrow> ((pystr \<times> jvalue) list \<times> string) option" where
  "parse_members 0 s = None"
| "parse_members (Suc n) s =
     (case s of
        [] \<Rightarrow> None
      | q # s1 \<Rightarrow>
          if q \<noteq> CHR 0x22 then None
          else
            (case scanstring s1 of
               None \<Rightarrow> None
             | Some (k, s2) \<Rightarrow>
                 (case skip_ws s2 of
                    [] \<Rightarrow> None
                  | colon # s3 \<Rightarrow>
                      if colon \<noteq> CHR '':'' then None
                      else
                        (case parse_value (skip_ws s3) of
                           None \<Rightarrow> None
                         | Some (v, s4) \<Rightarrow>
                             (case skip_ws s4 of
                                [] \<Rightarrow> None
                              | d # s5 \<Rightarrow>
                                  if d = CHR ''}'' then Some ([(k, v)], s5)
                                  else if d = CHR '','' then
                                    (case parse_members n (skip_ws s5) of
                                       None \<Rightarrow> None
                                     | Some (ms, r) \<Rightarrow> Some ((k, v) # ms, r))
                                  else None)))))"

definition json_loads :: "string \<Rightarrow> pydict option" where
  "json_loads text =
     (case skip_ws text of
        [] \<Rightarrow> None
      | b # s \<Rightarrow>
          if b \<noteq> CHR ''{'' then None
          else
            (case skip_ws s of
               [] \<Rightarrow> None
             | c # s' \<Rightarrow>
                 (case (if c = CHR ''}'' then Some ([], s') else parse_members (length text) (c # s')) of
                    None \<Rightarrow> None
                  | Some (ms, r) \<Rightarrow> if skip_ws r = [] then Some (dict_of_pairs ms) else None)))"

text \<open>What decoding does to an encoded string: adjacent surrogate halves become one code point.\<close>

fun join_surrogates :: "pystr \<Rightarrow> pystr" where
  "join_surrogates (h # l # cs) =
     (if 0xD800 \<le> h \<and> h \<le> 0xDBFF \<and> 0xDC00 \<le> l \<and> l \<le> 0xDFFF
      then (0x10000 + ((h - 0xD800) * 1024 + (l - 0xDC00))) # join_surrogates cs
      else h # join_surrogates (l # cs))"
| "join_surrogates cs = cs"

fun no_surrogate_pair :: "pystr \<Rightarrow> bool" where
  "no_surrogate_pair (h # l # cs) =
     (\<not> (0xD800 \<le> h \<and> h \<le> 0xDBFF \<and> 0xDC00 \<le> l \<and> l \<le> 0xDFFF) \<and> no_surrogate_pair (l # cs))"
| "no_surrogate_pair cs = True"

definition low_escape_next :: "string \<Rightarrow> bool" where
  "low_escape_next text =
     (case text of
        b # u # l3 # l2 # l1 # l0 # _ \<Rightarrow>
          b = CHR 0x5C \<and> u = CHR ''u'' \<and>
          (case decode_uXXXX l3 l2 l1 l0 of
             None \<Rightarrow> False
           | Some uni2 \<Rightarrow> 0xDC00 \<le> uni2 \<and> uni2 \<le> 0xDFFF)
      | _ \<Rightarrow> False)"

section \<open>The bridge connection manager (VSCodeBridgeManager in main.py and main_multi_model.py)\<close>

text \<open>
  The manager's two fields. \<^verbatim>\<open>ws_client\<close> is \<^verbatim>\<open>None\<close> or a connection object; of the
  object the model keeps which connection it is and whether \<^verbatim>\<open>close()\<close> has been called on
  it. (\<^verbatim>\<open>pending_requests\<close> of main.py is never read or written after the constructor.)
\<close>

record websocket =
  conn_id :: nat
  closed :: bool

record manager =
  ws_client :: "websocket option"
  is_connected :: bool

definition init_manager :: manager where
  "init_manager = \<lparr>ws_client = None, is_connected = False\<rparr>"

text \<open>
  Exceptions that reach the handlers of \<^verbatim>\<open>send_prompt\<close>: FastAPI's \<^verbatim>\<open>HTTPException\<close> with
  status code and detail, \<^verbatim>\<open>asyncio.TimeoutError\<close>,
  \<^verbatim>\<open>websockets.exceptions.ConnectionClosed\<close>, and any other \<^verbatim>\<open>Exception\<close> with its
  \<^verbatim>\<open>str(e)\<close>.
\<close>

datatype exn =
    HTTPException (status_code: nat) (detail: string)
  | Timeout_Error
  | Connection_Closed
  | Other_Error string

text \<open>
  What the peer and the network do during one call: whether \<^verbatim>\<open>websockets.connect\<close> gives a
  connection, what \<^verbatim>\<open>datetime.now().isoformat()\<close> reads, whether \<^verbatim>\<open>send\<close> goes through,
  and what the wait for \<^verbatim>\<open>recv()\<close> under \<^verbatim>\<open>asyncio.wait_for\<close> ends with.
\<close>

datatype connect_outcome =
    Connected nat
  | Connect_Failed string

datatype send_outcome =
    Sent
  | Send_Raises exn

datatype recv_outcome =
    Received string
  | Recv_Raises exn

record bridge_env =
  on_connect :: connect_outcome
  now_isoformat :: string
  on_send :: send_outcome
  on_recv :: recv_outcome

text \<open>What an observer of the transport sees of a call.\<close>

datatype bridge_event =
    Ev_Connect
  | Ev_Send string
  | Ev_Recv
  | Ev_Close

definition connect :: "connect_outcome \<Rightarrow> manager \<Rightarrow> bool \<times> manager" where
  "connect outcome m =
     (case outcome of
        Connected n \<Rightarrow>
          (True, m\<lparr>ws_client := Some \<lparr>conn_id = n, closed = False\<rparr>, is_connected := True\<rparr>)
      | Connect_Failed e \<Rightarrow> (False, m\<lparr>is_connected := False\<rparr>))"

definition disconnect :: "manager \<Rightarrow> manager" where
  "disconnect m =
     (case ws_client m of
        None \<Rightarrow> m
      | Some ws \<Rightarrow> m\<lparr>ws_client := Some (ws\<lparr>closed := True\<rparr>), is_connected := False\<rparr>)"

definition disconnect_events :: "manager \<Rightarrow> bridge_event list" where
  "disconnect_events m = (case ws_client m of None \<Rightarrow> [] | Some ws \<Rightarrow> [Ev_Close])"

text \<open>The request envelope of main.py.\<close>

definition build_message :: "pystr \<Rightarrow> pystr \<Rightarrow> pydict" where
  "build_message request_id prompt =
     [(py ''type'', JStr (py ''copilot_request'')),
      (py ''requestId'', JStr request_id),
      (py ''prompt'', JStr prompt),
      (py ''timestamp'', JStr request_id)]"

text \<open>
  The envelope of main_multi_model.py. \<open>kwargs\<close> are the keyword arguments of the call;
  \<^verbatim>\<open>kwargs.get(key, default)\<close> is the given value, or the default when the key is absent.
\<close>

definition kwargs_get :: "(string \<times> jvalue) list \<Rightarrow> string \<Rightarrow> jvalue \<Rightarrow> jvalue" where
  "kwargs_get kwargs key dflt = (case map_of kwargs key of None \<Rightarrow> dflt | Some v \<Rightarrow> v)"

definition build_message_mm :: "(string \<times> jvalue) list \<Rightarrow> pystr \<Rightarrow> pystr \<Rightarrow> pydict" where
  "build_message_mm kwargs request_id prompt =
     [(py ''type'', JStr (py ''copilot_request'')),
      (py ''requestId'', JStr request_id),
      (py ''prompt'', JStr prompt),
      (py ''temperature'', kwargs_get kwargs ''temperature'' (JFloat ''0.7'')),
      (py ''maxTokens'', kwargs_get kwargs ''max_tokens'' (JInt 2000)),
      (py ''timestamp'', JStr request_id)]"

definition unavailable_detail :: string where
  "unavailable_detail =
     ''VS Code Copilot bridge is not available. Please ensure the VS Code extension is running.''"

definition closed_detail :: string where
  "closed_detail = ''Connection to VS Code bridge was closed''"

definition timeout_detail :: "int \<Rightarrow> string" where
  "timeout_detail timeout =
     ''Timeout waiting for Copilot response after '' @ str_int timeout @ '' seconds''"

definition timeout_detail_mm :: "int \<Rightarrow> string" where
  "timeout_detail_mm timeout =
     ''Timeout waiting for response after '' @ str_int timeout @ '' seconds''"

text \<open>
  \<^verbatim>\<open>str(e)\<close> of what the last handler of main.py can catch. For an \<^verbatim>\<open>HTTPException\<close> it is
  Starlette's \<^verbatim>\<open>"{status_code}: {detail}"\<close>; for \<^verbatim>\<open>asyncio.TimeoutError()\<close> it is
  empty.
\<close>

definition str_exn :: "exn \<Rightarrow> string" where
  "str_exn e =
     (case e of
        HTTPException code d \<Rightarrow> str_nat code @ '': '' @ d
      | Timeout_Error \<Rightarrow> []
      | Connection_Closed \<Rightarrow> []
      | Other_Error msg \<Rightarrow> msg)"

text \<open>\<^verbatim>\<open>self.ws_client.send\<close> when \<^verbatim>\<open>ws_client\<close> is \<^verbatim>\<open>None\<close>: an \<^verbatim>\<open>AttributeError\<close>.\<close>

definition none_send_message :: string where
  "none_send_message =
     [CHR 0x27] @ ''NoneType'' @ [CHR 0x27] @ '' object has no attribute ''
       @ [CHR 0x27] @ ''send'' @ [CHR 0x27]"

text \<open>
  The inner \<^verbatim>\<open>try\<close>: wait for one inbound message and decode it. \<open>loads\<close> is
  \<^verbatim>\<open>json.loads\<close>: the message of its \<^verbatim>\<open>JSONDecodeError\<close>, or the decoded value. Only
  \<^verbatim>\<open>asyncio.TimeoutError\<close> is caught here, and answered by raising the 504.
\<close>

definition await_response ::
  "(string \<Rightarrow> string + 'r) \<Rightarrow> (int \<Rightarrow> string) \<Rightarrow> recv_outcome \<Rightarrow> int \<Rightarrow> exn + 'r" where
  "await_response loads tdetail outcome timeout =
     (case outcome of
        Recv_Raises e \<Rightarrow>
          (if e = Timeout_Error then Inl (HTTPException 504 (tdetail timeout)) else Inl e)
      | Received response_raw \<Rightarrow>
          (case loads response_raw of
             Inl msg \<Rightarrow> Inl (Other_Error msg)
           | Inr response \<Rightarrow> Inr response))"

text \<open>
  The body of the outer \<^verbatim>\<open>try\<close>: serialise the envelope, send it, wait. The result is what
  the body returns or the exception that leaves it, and the transport events.
\<close>

definition try_body ::
  "(string \<Rightarrow> string + 'r) \<Rightarrow> (int \<Rightarrow> string) \<Rightarrow> bridge_env \<Rightarrow> manager \<Rightarrow> pydict \<Rightarrow> int
     \<Rightarrow> (exn + 'r) \<times> bridge_event list" where
  "try_body loads tdetail env m message timeout =
     (case ws_client m of
        None \<Rightarrow> (Inl (Other_Error none_send_message), [])
      | Some ws \<Rightarrow>
          (case on_send env of
             Send_Raises e \<Rightarrow> (Inl e, [Ev_Send (json_dumps message)])
           | Sent \<Rightarrow>
               (await_response loads tdetail (on_recv env) timeout,
                [Ev_Send (json_dumps message), Ev_Recv])))"

text \<open>
  The start of \<^verbatim>\<open>send_prompt\<close> in both files: one \<^verbatim>\<open>connect()\<close> when the flag is false.
  The boolean is false when that \<^verbatim>\<open>connect()\<close> failed and the 503 is raised.
\<close>

definition ensure_connected :: "bridge_env \<Rightarrow> manager \<Rightarrow> bool \<times> manager \<times> bridge_event list" where
  "ensure_connected env m =
     (if \<not> is_connected m
      then (let (ok, m') = connect (on_connect env) m in (ok, m', [Ev_Connect]))
      else (True, m, []))"

text \<open>
  \<^verbatim>\<open>send_prompt\<close> of main.py. The last handler catches every \<^verbatim>\<open>Exception\<close> that leaves the
  body, the 504 of the inner handler included, and raises a 500.
\<close>

definition send_prompt ::
  "(string \<Rightarrow> string + 'r) \<Rightarrow> bridge_env \<Rightarrow> manager \<Rightarrow> pystr \<Rightarrow> int
     \<Rightarrow> (exn + 'r) \<times> manager \<times> bridge_event list" where
  "send_prompt loads env m prompt timeout =
     (let (ok, m1, evs0) = ensure_connected env m in
      if \<not> ok then (Inl (HTTPException 503 unavailable_detail), m1, evs0)
      else
        (let request_id = py (now_isoformat env);
             message = build_message request_id prompt;
             (outcome, evs) = try_body loads timeout_detail env m1 message timeout
         in case outcome of
              Inr response \<Rightarrow> (Inr response, m1, evs0 @ evs)
            | Inl Connection_Closed \<Rightarrow>
                (Inl (HTTPException 503 closed_detail), m1\<lparr>is_connected := False\<rparr>, evs0 @ evs)
            | Inl e \<Rightarrow>
                (Inl (HTTPException 500 (''Error communicating with VS Code bridge: '' @ str_exn e)),
                 m1, evs0 @ evs)))"

text \<open>
  \<^verbatim>\<open>send_prompt\<close> of main_multi_model.py. The last handler logs and re-raises what it
  caught.
\<close>

definition send_prompt_mm ::
  "(string \<Rightarrow> string + 'r) \<Rightarrow> bridge_env \<Rightarrow> manager \<Rightarrow> pystr \<Rightarrow> int \<Rightarrow> (string \<times> jvalue) list
     \<Rightarrow> (exn + 'r) \<times> manager \<times> bridge_event list" where
  "send_prompt_mm loads env m prompt timeout kwargs =
     (let (ok, m1, evs0) = ensure_connected env m in
      if \<not> ok then (Inl (HTTPException 503 unavailable_detail), m1, evs0)
      else
        (let request_id = py (now_isoformat env);
             message = build_message_mm kwargs request_id prompt;
             (outcome, evs) = try_body loads timeout_detail_mm env m1 message timeout
         in case outcome of
              Inr response \<Rightarrow> (Inr response, m1, evs0 @ evs)
            | Inl Connection_Closed \<Rightarrow>
                (Inl (HTTPException 503 closed_detail), m1\<lparr>is_connected := False\<rparr>, evs0 @ evs)
            | Inl e \<Rightarrow> (Inl e, m1, evs0 @ evs)))"

text \<open>
  The states a manager can be in: the constructor's, and what \<^verbatim>\<open>connect\<close>,
  \<^verbatim>\<open>disconnect\<close> and \<^verbatim>\<open>send_prompt\<close> (of either file) make of a reachable state, whatever
  the environment does.
\<close>

inductive reachable :: "manager \<Rightarrow> bool" where
  reach_init: "reachable init_manager"
| reach_connect: "reachable m \<Longrightarrow> reachable (snd (connect outcome m))"
| reach_disconnect: "reachable m \<Longrightarrow> reachable (disconnect m)"
| reach_send_prompt:
    "reachable m \<Longrightarrow>
       reachable (fst (snd (send_prompt (loads :: string \<Rightarrow> string + pydict) env m prompt timeout)))"
| reach_send_prompt_mm:
    "reachable m \<Longrightarrow>
       reachable (fst (snd (send_prompt_mm (loads :: string \<Rightarrow> string + pydict) env m prompt
                             timeout kwargs)))"

subsection \<open>Vocabulary for the statements about JSON and the bridge\<close>

text \<open>
  A member whose key and value are strings, and what decoding makes of an encoded member.
\<close>

definition str_member :: "pystr \<times> jvalue \<Rightarrow> bool" where
  "str_member m = (is_pystr (fst m) \<and> (\<exists>s. snd m = JStr s \<and> is_pystr s))"

definition decoded_member :: "pystr \<times> jvalue \<Rightarrow> pystr \<times> jvalue" where
  "decoded_member m =
     (join_surrogates (fst m),
      case snd m of JStr s \<Rightarrow> JStr (join_surrogates s) | v \<Rightarrow> v)"


text \<open>The number of \<^verbatim>\<open>connect()\<close> calls among the events of a call.\<close>

definition connects :: "bridge_event list \<Rightarrow> nat" where
  "connects evs = length (filter (\<lambda>ev. ev = Ev_Connect) evs)"


section \<open>Properties of the database executor\<close>

lemma str_nat_MAX: "str_nat MAX_RETRIES = ''3''"
  by code_simp

lemma lower_locked: "str_lower ''database is locked'' = ''database is locked''"
  by code_simp

lemma sublist_lower:
  "str_lower sub = sub \<Longrightarrow> sublist sub s \<Longrightarrow> sublist sub (str_lower s)"
  unfolding str_lower_def using map_mono_sublist [of sub s lower_char] by simp

lemma retry_loop_done:
  "\<not> attempt < MAX_RETRIES \<Longrightarrow>
     retry_loop db fo fa attempt lst evs = (Inl (exhausted_message lst), evs)"
  by (subst retry_loop.simps) simp

lemma retry_loop_retried:
  assumes "attempt < MAX_RETRIES - 1" and "retried (db attempt)"
  shows "retry_loop db fo fa attempt lst evs =
         retry_loop db fo fa (Suc attempt) (raised_message (db attempt))
           (evs @ [Physical_Attempt, Sleep (RETRY_DELAY * 2 ^ attempt)])"
proof -
  from assms(1) have lt: "attempt < MAX_RETRIES" by simp
  show ?thesis
  proof (cases "db attempt")
    case File_Missing
    with assms(2) show ?thesis by (simp add: retried_def)
  next
    case (Database_Error e)
    with assms lt show ?thesis
      by (subst retry_loop.simps) (auto simp: retried_def raised_message_def Let_def)
  next
    case (Other_Exception e)
    with assms lt show ?thesis
      by (subst retry_loop.simps) (simp add: raised_message_def)
  next
    case (Cursor_Rows rows)
    with assms(2) show ?thesis by (simp add: retried_def)
  qed
qed

lemma retry_loop_reach:
  "k \<le> MAX_RETRIES - 1 \<Longrightarrow> \<forall>j<k. retried (db j) \<Longrightarrow>
     retry_loop db fo fa 0 None [] =
     retry_loop db fo fa k (if k = 0 then None else raised_message (db (k - 1))) (backoff k)"
proof (induction k)
  case 0
  show ?case by simp
next
  case (Suc k)
  then have "retry_loop db fo fa 0 None [] =
     retry_loop db fo fa k (if k = 0 then None else raised_message (db (k - 1))) (backoff k)"
    by simp
  also have "\<dots> = retry_loop db fo fa (Suc k) (raised_message (db k))
                     (backoff k @ [Physical_Attempt, Sleep (RETRY_DELAY * 2 ^ k)])"
    using Suc.prems by (intro retry_loop_retried) auto
  finally show ?case by simp
qed

lemma retry_loop_cases:
  assumes lt: "attempt < MAX_RETRIES"
  shows "(\<exists>r. retry_loop db fo fa attempt lst evs = (r, evs))
       \<or> (\<exists>r. retry_loop db fo fa attempt lst evs = (r, evs @ [Physical_Attempt]))
       \<or> (attempt < MAX_RETRIES - 1 \<and>
           (\<exists>l. retry_loop db fo fa attempt lst evs =
                retry_loop db fo fa (Suc attempt) l
                  (evs @ [Physical_Attempt, Sleep (RETRY_DELAY * 2 ^ attempt)])))"
proof (cases "attempt < MAX_RETRIES - 1")
  case True
  show ?thesis
  proof (cases "retried (db attempt)")
    case True
    with \<open>attempt < MAX_RETRIES - 1\<close> show ?thesis
      using retry_loop_retried [of attempt db fo fa lst evs] by blast
  next
    case False
    with lt show ?thesis
      by (subst (1 2) retry_loop.simps)
         (auto simp: retried_def Let_def split: attempt_outcome.splits)
  qed
next
  case False
  with lt have nd: "\<not> Suc attempt < MAX_RETRIES" by simp
  from lt False show ?thesis
    by (subst (1 2) retry_loop.simps)
       (auto simp: Let_def retry_loop_done [OF nd] split: attempt_outcome.splits)
qed

lemma retry_loop_events:
  "MAX_RETRIES - attempt = n \<Longrightarrow>
     \<exists>p. prefix p (rest_schedule n attempt)
       \<and> snd (retry_loop db fo fa attempt lst evs) = evs @ p"
proof (induction n arbitrary: attempt lst evs)
  case 0
  then have "\<not> attempt < MAX_RETRIES" by simp
  then show ?case by (simp add: retry_loop_done)
next
  case (Suc n)
  then have lt: "attempt < MAX_RETRIES" and n': "MAX_RETRIES - Suc attempt = n" by simp_all
  have last_iff: "attempt < MAX_RETRIES - 1 \<longleftrightarrow> n \<noteq> 0" using Suc.prems by auto
  from retry_loop_cases [OF lt, of db fo fa lst evs]
  consider
    (stop0) r where "retry_loop db fo fa attempt lst evs = (r, evs)"
  | (stop1) r where "retry_loop db fo fa attempt lst evs = (r, evs @ [Physical_Attempt])"
  | (cont) l where "attempt < MAX_RETRIES - 1"
      "retry_loop db fo fa attempt lst evs =
         retry_loop db fo fa (Suc attempt) l
           (evs @ [Physical_Attempt, Sleep (RETRY_DELAY * 2 ^ attempt)])"
    by blast
  then show ?case
  proof cases
    case stop0
    then show ?thesis by (intro exI [of _ "[]"]) simp
  next
    case stop1
    then show ?thesis by (intro exI [of _ "[Physical_Attempt]"]) simp
  next
    case cont
    from Suc.IH [OF n', of l "evs @ [Physical_Attempt, Sleep (RETRY_DELAY * 2 ^ attempt)]"]
    obtain p where p: "prefix p (rest_schedule n (Suc attempt))"
      "snd (retry_loop db fo fa (Suc attempt) l
             (evs @ [Physical_Attempt, Sleep (RETRY_DELAY * 2 ^ attempt)])) =
       (evs @ [Physical_Attempt, Sleep (RETRY_DELAY * 2 ^ attempt)]) @ p"
      by blast
    from cont(1) last_iff have "n \<noteq> 0" by simp
    with p cont(2) show ?thesis
      by (intro exI [of _ "Physical_Attempt # Sleep (RETRY_DELAY * 2 ^ attempt) # p"]) simp
  qed
qed

lemma full_schedule:
  "rest_schedule MAX_RETRIES 0 =
     [Physical_Attempt, Sleep (RETRY_DELAY * 2 ^ 0), Physical_Attempt,
      Sleep (RETRY_DELAY * 2 ^ 1), Physical_Attempt]"
  by (simp add: MAX_RETRIES_def numeral_3_eq_3)

lemma execute_events:
  "prefix (snd (execute_with_retry db q ps fo fa c)) (rest_schedule MAX_RETRIES 0)"
  using retry_loop_events [of 0 MAX_RETRIES "db q ps c" fo fa None "[]"]
  by (auto simp: execute_with_retry_def)

lemma prefix5:
  "prefix p [a, b, c, d, e] \<longleftrightarrow>
     p = [] \<or> p = [a] \<or> p = [a, b] \<or> p = [a, b, c] \<or> p = [a, b, c, d] \<or> p = [a, b, c, d, e]"
  by (auto simp: prefix_Cons)

lemma backoff_two:
  "backoff 2 =
     [Physical_Attempt, Sleep (RETRY_DELAY * 2 ^ 0), Physical_Attempt, Sleep (RETRY_DELAY * 2 ^ 1)]"
  by (simp add: numeral_2_eq_2)

text \<open>When every iteration meets a database error whose lowered message has the lock signature.\<close>

lemma execute_all_locked:
  assumes locked: "\<forall>k<MAX_RETRIES. db query params commit k = Database_Error (err k)
                      \<and> sublist ''database is locked'' (str_lower (err k))"
  shows "execute_with_retry db query params fetch_one fetch_all commit =
           (Inl (''Database operation failed after 3 attempts. Last error: '' @ err 2),
            [Physical_Attempt, Sleep (RETRY_DELAY * 1), Physical_Attempt,
             Sleep (RETRY_DELAY * 2), Physical_Attempt])"
proof -
  let ?db = "db query params commit"
  have ret: "\<forall>j<2. retried (?db j)"
    using locked by (auto simp: retried_def MAX_RETRIES_def)
  have "retry_loop ?db fetch_one fetch_all 0 None [] =
        retry_loop ?db fetch_one fetch_all 2 (raised_message (?db 1)) (backoff 2)"
    using retry_loop_reach [of 2 ?db fetch_one fetch_all] ret by (simp add: MAX_RETRIES_def)
  also have "\<dots> = retry_loop ?db fetch_one fetch_all 3 (Some (err 2))
                     (backoff 2 @ [Physical_Attempt])"
    using locked
    by (subst retry_loop.simps) (simp add: MAX_RETRIES_def Let_def)
  also have "\<dots> = (Inl (exhausted_message (Some (err 2))), backoff 2 @ [Physical_Attempt])"
    by (rule retry_loop_done) (simp add: MAX_RETRIES_def)
  finally show ?thesis
    by (simp add: execute_with_retry_def exhausted_message_def str_last_def str_nat_MAX
          backoff_two)
qed

lemma retry_loop_returns:
  "fst (retry_loop db fo fa attempt lst evs) = Inr r \<Longrightarrow>
     \<exists>k rows. db k = Cursor_Rows rows \<and> r = fetch_result fo fa rows"
proof (induction "MAX_RETRIES - attempt" arbitrary: attempt lst evs)
  case 0
  then have "\<not> attempt < MAX_RETRIES" by simp
  with "0.prems" show ?case by (simp add: retry_loop_done)
next
  case (Suc n)
  from Suc.hyps(2) have lt: "attempt < MAX_RETRIES" and n: "n = MAX_RETRIES - Suc attempt"
    by simp_all
  note IH = Suc.hyps(1) [OF n]
  from Suc.prems lt show ?case
    by (subst (asm) retry_loop.simps)
       (auto simp: Let_def split: if_splits attempt_outcome.splits dest: IH)
qed


subsection \<open>Helper facts for the claims about the executor\<close>

lemma sublist_self: "sublist xs xs"
  using sublist_appendI [of xs "[]" "[]"] by simp

lemma fatal_messages_distinct:
  "distinct [not_accessible_message, corrupted_message, schema_message]"
  by (simp add: not_accessible_message_def corrupted_message_def schema_message_def)

lemma execute_reach:
  assumes "k < MAX_RETRIES" and "\<forall>j<k. retried (db query params commit j)"
  shows "\<exists>lst. execute_with_retry db query params fetch_one fetch_all commit =
           retry_loop (db query params commit) fetch_one fetch_all k lst (backoff k)"
proof -
  from assms(1) have "k \<le> MAX_RETRIES - 1" by simp
  from retry_loop_reach [OF this, of "db query params commit" fetch_one fetch_all] assms(2)
  show ?thesis
    unfolding execute_with_retry_def by blast
qed

lemma cex_has_schema: "sublist ''no such table'' ''no such table: database is locked''"
  by code_simp

lemma cex_has_lock:
  "sublist ''database is locked'' (str_lower ''no such table: database is locked'')"
  by code_simp

lemma malformed_lower:
  "str_lower ''database disk image is malformed'' = ''database disk image is malformed''"
  by code_simp

lemma malformed_not_locked:
  "\<not> sublist ''database is locked'' ''database disk image is malformed''"
  by code_simp

lemma no_table_lower:
  "str_lower ''no such table: jira_dashboard'' = ''no such table: jira_dashboard''"
  by code_simp

lemma no_table_facts:
  "\<not> sublist ''database is locked'' ''no such table: jira_dashboard''"
  "\<not> sublist ''database disk image is malformed'' ''no such table: jira_dashboard''"
  "sublist ''no such table'' ''no such table: jira_dashboard''"
  by code_simp+

lemma execute_first_rows:
  "db query params commit 0 = Cursor_Rows rows \<Longrightarrow>
     execute_with_retry db query params fetch_one fetch_all commit =
       (Inr (fetch_result fetch_one fetch_all rows), [Physical_Attempt])"
  unfolding execute_with_retry_def
  by (subst retry_loop.simps) (simp add: MAX_RETRIES_def)


subsection \<open>Lock contention on every attempt\<close>

text \<open>
  Claim C2. For every query and parameters: when each of the \<open>MAX_RETRIES\<close> iterations
  meets a \<^verbatim>\<open>sqlite3.DatabaseError\<close> whose message contains \<^verbatim>\<open>database is locked\<close>,
  \<open>execute_with_retry\<close> opens exactly three connections, sleeps \<open>RETRY_DELAY * 1\<close>
  and \<open>RETRY_DELAY * 2\<close> between them (in total \<open>RETRY_DELAY * (1 + 2)\<close>), and then raises
  the exception below the loop, whose message names the count 3 and ends with the message
  of the last lock error.
\<close>

theorem execute_with_retry_all_locked:
  assumes "\<forall>k<MAX_RETRIES. db query params commit k = Database_Error (err k)
              \<and> sublist ''database is locked'' (err k)"
  shows "execute_with_retry db query params fetch_one fetch_all commit =
           (Inl (''Database operation failed after 3 attempts. Last error: '' @ err 2),
            [Physical_Attempt, Sleep (RETRY_DELAY * 1), Physical_Attempt,
             Sleep (RETRY_DELAY * 2), Physical_Attempt])
       \<and> physical_attempts (snd (execute_with_retry db query params fetch_one fetch_all commit))
           = MAX_RETRIES
       \<and> sum_list (sleeps (snd (execute_with_retry db query params fetch_one fetch_all commit)))
           = RETRY_DELAY * (1 + 2)"
proof -
  have low: "\<forall>k<MAX_RETRIES. db query params commit k = Database_Error (err k)
                \<and> sublist ''database is locked'' (str_lower (err k))"
    using assms sublist_lower [OF lower_locked] by blast
  from low have run: "execute_with_retry db query params fetch_one fetch_all commit =
           (Inl (''Database operation failed after 3 attempts. Last error: '' @ err 2),
            [Physical_Attempt, Sleep (RETRY_DELAY * 1), Physical_Attempt,
             Sleep (RETRY_DELAY * 2), Physical_Attempt])"
    by (rule execute_all_locked)
  show ?thesis
    unfolding run by (simp add: physical_attempts_def sleeps_def MAX_RETRIES_def)
qed


theorem execute_with_retry_all_locked_witness:
  "execute_with_retry (\<lambda>q ps c k. Database_Error ''database is locked'')
      ''SELECT 1'' ([] :: nat list) True False False =
     (Inl ''Database operation failed after 3 attempts. Last error: database is locked'' ::
        string + nat query_result,
      [Physical_Attempt, Sleep (1 / 10), Physical_Attempt, Sleep (1 / 5), Physical_Attempt])"
  using execute_with_retry_all_locked
    [of "\<lambda>(q :: string) (ps :: nat list) (c :: bool) (k :: nat).
           (Database_Error ''database is locked'' :: nat attempt_outcome)"
        "''SELECT 1''" "[]" False "\<lambda>k. ''database is locked''" True False]
  by (simp add: RETRY_DELAY_def sublist_self)

subsection \<open>Fatal error classes\<close>

text \<open>
  Claim C3, as the code has it. Let the earlier iterations of a call all have gone to the
  back-off. If the file is missing in iteration \<open>k\<close>, the call raises the
  file-not-accessible exception without opening a connection in that iteration. If
  iteration \<open>k\<close> meets a \<^verbatim>\<open>sqlite3.DatabaseError\<close> whose lowered message does not contain
  \<^verbatim>\<open>database is locked\<close> and contains \<^verbatim>\<open>database disk image is malformed\<close>, the call
  raises the corrupted-database exception; if it contains neither of the two and contains
  \<^verbatim>\<open>no such table\<close>, the call raises the schema exception. In each case nothing follows
  the failing iteration: no further connection, no sleep. The three messages differ.
  The lock signature is tested first, so a message that also contains it is retried: the
  counterexample is the message SQLite gives for a missing table named
  \<^verbatim>\<open>database is locked\<close>.
\<close>

theorem execute_with_retry_fatal:
  assumes "k < MAX_RETRIES" and "\<forall>j<k. retried (db query params commit j)"
  shows "(db query params commit k = File_Missing \<longrightarrow>
            execute_with_retry db query params fetch_one fetch_all commit =
              (Inl not_accessible_message, backoff k))
       \<and> (\<forall>e. db query params commit k = Database_Error e
              \<and> \<not> sublist ''database is locked'' (str_lower e)
              \<and> sublist ''database disk image is malformed'' (str_lower e) \<longrightarrow>
            execute_with_retry db query params fetch_one fetch_all commit =
              (Inl corrupted_message, backoff k @ [Physical_Attempt]))
       \<and> (\<forall>e. db query params commit k = Database_Error e
              \<and> \<not> sublist ''database is locked'' (str_lower e)
              \<and> \<not> sublist ''database disk image is malformed'' (str_lower e)
              \<and> sublist ''no such table'' (str_lower e) \<longrightarrow>
            execute_with_retry db query params fetch_one fetch_all commit =
              (Inl schema_message, backoff k @ [Physical_Attempt]))
       \<and> distinct [not_accessible_message, corrupted_message, schema_message]"
proof -
  from execute_reach [of k db query params commit fetch_one fetch_all] assms obtain lst where
    run: "execute_with_retry db query params fetch_one fetch_all commit =
           retry_loop (db query params commit) fetch_one fetch_all k lst (backoff k)"
    by blast
  let ?loop = "retry_loop (db query params commit) fetch_one fetch_all k lst (backoff k)"
  have missing: "db query params commit k = File_Missing \<Longrightarrow>
      ?loop = (Inl not_accessible_message, backoff k)"
    using assms(1) by (subst retry_loop.simps) simp
  have corrupted: "\<And>e. db query params commit k = Database_Error e \<Longrightarrow>
      \<not> sublist ''database is locked'' (str_lower e) \<Longrightarrow>
      sublist ''database disk image is malformed'' (str_lower e) \<Longrightarrow>
      ?loop = (Inl corrupted_message, backoff k @ [Physical_Attempt])"
    using assms(1) by (subst retry_loop.simps) (simp add: Let_def)
  have schema: "\<And>e. db query params commit k = Database_Error e \<Longrightarrow>
      \<not> sublist ''database is locked'' (str_lower e) \<Longrightarrow>
      \<not> sublist ''database disk image is malformed'' (str_lower e) \<Longrightarrow>
      sublist ''no such table'' (str_lower e) \<Longrightarrow>
      ?loop = (Inl schema_message, backoff k @ [Physical_Attempt])"
    using assms(1) by (subst retry_loop.simps) (simp add: Let_def)
  show ?thesis
    unfolding run using fatal_messages_distinct missing corrupted schema
    by blast
qed

theorem execute_with_retry_fatal_witness:
  "execute_with_retry (\<lambda>q ps c k. if k = 0 then Other_Exception ''disk I/O error'' else File_Missing)
      ''SELECT 1'' ([] :: nat list) True False False =
     (Inl not_accessible_message :: string + nat query_result,
      [Physical_Attempt, Sleep (1 / 10)])
   \<and> execute_with_retry (\<lambda>q ps c k. Database_Error ''database disk image is malformed'')
      ''SELECT 1'' ([] :: nat list) True False False =
     (Inl corrupted_message :: string + nat query_result, [Physical_Attempt])
   \<and> execute_with_retry (\<lambda>q ps c k. Database_Error ''no such table: jira_dashboard'')
      ''SELECT 1 FROM jira_dashboard'' ([] :: nat list) True False False =
     (Inl schema_message :: string + nat query_result, [Physical_Attempt])"
proof -
  have a: "execute_with_retry
      (\<lambda>(q :: string) (ps :: nat list) (c :: bool) (k :: nat).
          if k = 0 then (Other_Exception ''disk I/O error'' :: nat attempt_outcome)
          else File_Missing)
      ''SELECT 1'' [] True False False =
     (Inl not_accessible_message, [Physical_Attempt, Sleep (1 / 10)])"
    using execute_with_retry_fatal
      [of 1 "\<lambda>(q :: string) (ps :: nat list) (c :: bool) (k :: nat).
          if k = 0 then (Other_Exception ''disk I/O error'' :: nat attempt_outcome)
          else File_Missing" "''SELECT 1''" "[]" False True False]
    by (simp add: MAX_RETRIES_def retried_def RETRY_DELAY_def)
  have b: "execute_with_retry
      (\<lambda>(q :: string) (ps :: nat list) (c :: bool) (k :: nat).
          (Database_Error ''database disk image is malformed'' :: nat attempt_outcome))
      ''SELECT 1'' [] True False False =
     (Inl corrupted_message, [Physical_Attempt])"
    using execute_with_retry_fatal
      [of 0 "\<lambda>(q :: string) (ps :: nat list) (c :: bool) (k :: nat).
          (Database_Error ''database disk image is malformed'' :: nat attempt_outcome)"
          "''SELECT 1''" "[]" False True False]
    by (simp add: MAX_RETRIES_def malformed_lower malformed_not_locked sublist_self)
  have c: "execute_with_retry
      (\<lambda>(q :: string) (ps :: nat list) (c :: bool) (k :: nat).
          (Database_Error ''no such table: jira_dashboard'' :: nat attempt_outcome))
      ''SELECT 1 FROM jira_dashboard'' [] True False False =
     (Inl schema_message, [Physical_Attempt])"
    using execute_with_retry_fatal
      [of 0 "\<lambda>(q :: string) (ps :: nat list) (c :: bool) (k :: nat).
          (Database_Error ''no such table: jira_dashboard'' :: nat attempt_outcome)"
          "''SELECT 1 FROM jira_dashboard''" "[]" False True False]
    by (simp add: MAX_RETRIES_def no_table_lower no_table_facts)
  from a b c show ?thesis by simp
qed

theorem execute_with_retry_fatal_counterexample:
  "sublist ''no such table'' ''no such table: database is locked''
   \<and> execute_with_retry (\<lambda>q ps c k. Database_Error ''no such table: database is locked'')
        ''SELECT * FROM [database is locked]'' ([] :: nat list) True False False =
       (Inl ''Database operation failed after 3 attempts. Last error: no such table: database is locked''
          :: string + nat query_result,
        [Physical_Attempt, Sleep (1 / 10), Physical_Attempt, Sleep (1 / 5), Physical_Attempt])
   \<and> fst (execute_with_retry (\<lambda>q ps c k. Database_Error ''no such table: database is locked'')
        ''SELECT * FROM [database is locked]'' ([] :: nat list) True False False)
       \<noteq> (Inl schema_message :: string + nat query_result)"
proof -
  have run: "execute_with_retry
        (\<lambda>(q :: string) (ps :: nat list) (c :: bool) (k :: nat).
           (Database_Error ''no such table: database is locked'' :: nat attempt_outcome))
        ''SELECT * FROM [database is locked]'' [] True False False =
       (Inl ''Database operation failed after 3 attempts. Last error: no such table: database is locked'',
        [Physical_Attempt, Sleep (1 / 10), Physical_Attempt, Sleep (1 / 5), Physical_Attempt])"
    using execute_all_locked
      [of "\<lambda>(q :: string) (ps :: nat list) (c :: bool) (k :: nat).
             (Database_Error ''no such table: database is locked'' :: nat attempt_outcome)"
          "''SELECT * FROM [database is locked]''" "[]" False
          "\<lambda>k. ''no such table: database is locked''" True False]
    by (simp add: RETRY_DELAY_def cex_has_lock)
  show ?thesis
    unfolding run using cex_has_schema by (simp add: schema_message_def)
qed

subsection \<open>The back-off schedule\<close>

text \<open>
  Claim C4. Whatever the environment does, the events of a call are an initial part of
  attempt, sleep \<open>RETRY_DELAY * 2 ^ 0\<close>, attempt, sleep \<open>RETRY_DELAY * 2 ^ 1\<close>, attempt, and
  nothing else is slept or opened. So between attempt \<open>k - 1\<close> and attempt \<open>k \<ge> 2\<close> the call
  sleeps once, for exactly \<open>RETRY_DELAY * 2 ^ (k - 2)\<close>; that delay is the double of (and
  larger than) the one before the previous attempt; all the sleeps of a call are an initial
  part of \<open>RETRY_DELAY\<close>, \<open>2 * RETRY_DELAY\<close>; and a call makes at most \<open>MAX_RETRIES = 3\<close>
  physical attempts. \<open>RETRY_DELAY\<close> is one tenth of a second. Delays are real numbers here;
  the doubling of a binary float is exact.
\<close>

theorem execute_with_retry_backoff:
  "prefix (snd (execute_with_retry db query params fetch_one fetch_all commit))
     [Physical_Attempt, Sleep (RETRY_DELAY * 2 ^ 0), Physical_Attempt,
      Sleep (RETRY_DELAY * 2 ^ 1), Physical_Attempt]
   \<and> (let ss = attempt_sleeps (snd (execute_with_retry db query params fetch_one fetch_all commit))
      in length ss \<le> MAX_RETRIES
         \<and> (\<forall>k. 2 \<le> k \<and> k \<le> length ss \<longrightarrow> ss ! (k - 1) = [RETRY_DELAY * 2 ^ (k - 2)])
         \<and> (\<forall>k. 2 \<le> k \<and> k < length ss \<longrightarrow>
              (\<exists>d. ss ! (k - 1) = [d] \<and> ss ! k = [2 * d] \<and> d < 2 * d)))
   \<and> prefix (sleeps (snd (execute_with_retry db query params fetch_one fetch_all commit)))
        [RETRY_DELAY, 2 * RETRY_DELAY]
   \<and> physical_attempts (snd (execute_with_retry db query params fetch_one fetch_all commit))
       \<le> MAX_RETRIES
   \<and> MAX_RETRIES = 3 \<and> RETRY_DELAY = 1 / 10"
proof -
  have R: "0 < RETRY_DELAY" by (simp add: RETRY_DELAY_def)
  have two: "\<And>k::nat. 2 \<le> k \<Longrightarrow> k \<le> 3 \<Longrightarrow> k = 2 \<or> k = 3" by arith
  note trace = execute_events [of db query params fetch_one fetch_all commit]
  from trace
  have whole: "prefix (snd (execute_with_retry db query params fetch_one fetch_all commit))
     [Physical_Attempt, Sleep (RETRY_DELAY * 2 ^ 0), Physical_Attempt,
      Sleep (RETRY_DELAY * 2 ^ 1), Physical_Attempt]"
    unfolding full_schedule .
  from trace
  have between: "(let ss = attempt_sleeps
                     (snd (execute_with_retry db query params fetch_one fetch_all commit))
    in length ss \<le> MAX_RETRIES
       \<and> (\<forall>k. 2 \<le> k \<and> k \<le> length ss \<longrightarrow> ss ! (k - 1) = [RETRY_DELAY * 2 ^ (k - 2)])
       \<and> (\<forall>k. 2 \<le> k \<and> k < length ss \<longrightarrow>
            (\<exists>d. ss ! (k - 1) = [d] \<and> ss ! k = [2 * d] \<and> d < 2 * d)))"
    unfolding full_schedule prefix5 attempt_sleeps_def Let_def
    using R by (auto simp: MAX_RETRIES_def dest!: two)
  from trace
  have slept: "prefix (sleeps (snd (execute_with_retry db query params fetch_one fetch_all commit)))
        [RETRY_DELAY, 2 * RETRY_DELAY]"
    unfolding full_schedule prefix5 sleeps_def
    by auto
  from trace
  have count: "physical_attempts
                 (snd (execute_with_retry db query params fetch_one fetch_all commit))
       \<le> MAX_RETRIES"
    unfolding full_schedule prefix5 physical_attempts_def
    by (auto simp: MAX_RETRIES_def)
  from whole between slept count show ?thesis
    by (simp add: MAX_RETRIES_def RETRY_DELAY_def)
qed

theorem execute_with_retry_backoff_witness:
  "attempt_sleeps (snd (execute_with_retry
      (\<lambda>q ps c k. Database_Error ''database is locked'' :: nat attempt_outcome)
      ''SELECT 1'' ([] :: nat list) True False False)) ! 1 = [1 / 10]
   \<and> attempt_sleeps (snd (execute_with_retry
      (\<lambda>q ps c k. Database_Error ''database is locked'' :: nat attempt_outcome)
      ''SELECT 1'' ([] :: nat list) True False False)) ! 2 = [1 / 5]
   \<and> length (attempt_sleeps (snd (execute_with_retry
      (\<lambda>q ps c k. Database_Error ''database is locked'' :: nat attempt_outcome)
      ''SELECT 1'' ([] :: nat list) True False False))) = 3"
proof -
  let ?db = "\<lambda>(q :: string) (ps :: nat list) (c :: bool) (k :: nat).
               (Database_Error ''database is locked'' :: nat attempt_outcome)"
  let ?ss = "attempt_sleeps (snd (execute_with_retry ?db ''SELECT 1'' [] True False False))"
  have "execute_with_retry ?db ''SELECT 1'' [] True False False =
           (Inl (''Database operation failed after 3 attempts. Last error: ''
                  @ ''database is locked''),
            [Physical_Attempt, Sleep (RETRY_DELAY * 1), Physical_Attempt,
             Sleep (RETRY_DELAY * 2), Physical_Attempt])"
    using execute_all_locked [of ?db "''SELECT 1''" "[]" False "\<lambda>k. ''database is locked''"
            True False]
    by (simp add: lower_locked sublist_self)
  then have len: "length ?ss = 3"
    by (simp add: attempt_sleeps_def)
  from execute_with_retry_backoff [of ?db "''SELECT 1''" "[]" True False False]
  have all: "\<forall>k. 2 \<le> k \<and> k \<le> length ?ss \<longrightarrow> ?ss ! (k - 1) = [RETRY_DELAY * 2 ^ (k - 2)]"
    by (simp add: Let_def)
  from all [rule_format, of 2] all [rule_format, of 3] len show ?thesis
    by (simp add: RETRY_DELAY_def)
qed

subsection \<open>Calls without a fetch flag\<close>

text \<open>
  Claim C10. A call with \<^verbatim>\<open>fetch_one\<close> and \<^verbatim>\<open>fetch_all\<close> both false that returns, returns
  \<^verbatim>\<open>None\<close>, also when the cursor holds rows; the same statement with \<^verbatim>\<open>fetch_one\<close>
  returns its first row.
\<close>

theorem execute_with_retry_no_fetch_flag:
  "fst (execute_with_retry db query params False False commit) = Inr r \<Longrightarrow> r = Py_None"
  by (auto simp: execute_with_retry_def fetch_result_def dest: retry_loop_returns)


theorem execute_with_retry_no_fetch_flag_witness:
  "fst (execute_with_retry (\<lambda>q ps c k. Cursor_Rows [1 :: nat]) ''SELECT 1'' ([] :: nat list)
          False False False) = Inr (fetch_result False False [1 :: nat])
   \<and> fetch_result False False [1 :: nat] = Py_None
   \<and> fst (execute_with_retry (\<lambda>q ps c k. Cursor_Rows [1 :: nat]) ''SELECT 1'' ([] :: nat list)
          True False False) = Inr (One_Row 1)"
proof -
  let ?db = "\<lambda>(q :: string) (ps :: nat list) (c :: bool) (k :: nat). Cursor_Rows [1 :: nat]"
  have run: "fst (execute_with_retry ?db ''SELECT 1'' [] False False False)
               = Inr (fetch_result False False [1 :: nat])"
    by (simp add: execute_first_rows)
  have one: "fst (execute_with_retry ?db ''SELECT 1'' [] True False False) = Inr (One_Row 1)"
    by (simp add: execute_first_rows fetch_result_def fetchone_def)
  from execute_with_retry_no_fetch_flag [OF run] run one show ?thesis by simp
qed

section \<open>Properties of the JSON functions\<close>

lemma hex_value_digit: "d < 16 \<Longrightarrow> hex_value (hex_digit d) = Some d"
proof -
  assume "d < 16"
  then have "d = 0 \<or> d = 1 \<or> d = 2 \<or> d = 3 \<or> d = 4 \<or> d = 5 \<or> d = 6 \<or> d = 7 \<or> d = 8
      \<or> d = 9 \<or> d = 10 \<or> d = 11 \<or> d = 12 \<or> d = 13 \<or> d = 14 \<or> d = 15" by arith
  then show ?thesis
    by (elim disjE) (simp_all add: hex_digit_def hex_value_def)
qed

lemma hex4_cons:
  "hex4 n @ X = hex_digit (n div 4096 mod 16) # hex_digit (n div 256 mod 16)
                # hex_digit (n div 16 mod 16) # hex_digit (n mod 16) # X"
  by (simp add: hex4_def)

lemma hex_sum:
  assumes "n < 65536"
  shows "(n div 4096 mod 16) * 4096 + (n div 256 mod 16) * 256 + (n div 16 mod 16) * 16 + n mod 16
     = (n::nat)"
proof -
  define a where "a = n div 16"
  define b where "b = a div 16"
  define c where "c = b div 16"
  have n: "n = 16 * a + n mod 16" by (simp add: a_def)
  have a: "a = 16 * b + a mod 16" by (simp add: b_def)
  have b: "b = 16 * c + b mod 16" by (simp add: c_def)
  have b256: "n div 256 = b" by (simp add: a_def b_def div_mult2_eq)
  have c4096: "n div 4096 = c" by (simp add: a_def b_def c_def div_mult2_eq)
  have "c < 16" using assms c4096 by simp
  then have cm: "c mod 16 = c" by simp
  show ?thesis
    unfolding b256 c4096 cm a_def [symmetric]
    using n a b by linarith
qed

lemma decode_hex4:
  "n < 65536 \<Longrightarrow>
     decode_uXXXX (hex_digit (n div 4096 mod 16)) (hex_digit (n div 256 mod 16))
       (hex_digit (n div 16 mod 16)) (hex_digit (n mod 16)) = Some n"
  using hex_sum [of n] by (simp add: decode_uXXXX_def hex_value_digit)


lemma scan_quote: "scanstring (CHR 0x22 # cs) = Some ([], cs)"
  by simp

lemma scan_plain:
  "c \<noteq> CHR 0x22 \<Longrightarrow> c \<noteq> CHR 0x5C \<Longrightarrow> \<not> (of_char c :: nat) < 0x20 \<Longrightarrow>
     scanstring (c # cs) = emit (of_char c) (scanstring cs)"
  by simp

lemma scan_backslash:
  "e \<noteq> CHR ''u'' \<Longrightarrow> backslash_escape e = Some ch \<Longrightarrow>
     scanstring (CHR 0x5C # e # es) = emit ch (scanstring es)"
  by simp

lemma scan_u:
  "decode_uXXXX h3 h2 h1 h0 = Some uni \<Longrightarrow>
   scanstring (CHR 0x5C # CHR ''u'' # h3 # h2 # h1 # h0 # fs) =
     (case fs of
        b # u # l3 # l2 # l1 # l0 # gs \<Rightarrow>
          if 0xD800 \<le> uni \<and> uni \<le> 0xDBFF \<and> b = CHR 0x5C \<and> u = CHR ''u'' then
            (case decode_uXXXX l3 l2 l1 l0 of
               None \<Rightarrow> None
             | Some uni2 \<Rightarrow>
                 if 0xDC00 \<le> uni2 \<and> uni2 \<le> 0xDFFF
                 then emit (0x10000 + ((uni - 0xD800) * 1024 + (uni2 - 0xDC00))) (scanstring gs)
                 else emit uni (scanstring fs))
          else emit uni (scanstring fs)
      | _ \<Rightarrow> emit uni (scanstring fs))"
  by simp

lemma scan_u_bad:
  "decode_uXXXX h3 h2 h1 h0 = None \<Longrightarrow>
   scanstring (CHR 0x5C # CHR ''u'' # h3 # h2 # h1 # h0 # fs) = None"
  by simp

declare scanstring.simps [simp del]

lemma scan_u_single:
  assumes d: "decode_uXXXX h3 h2 h1 h0 = Some uni"
    and nl: "\<not> (0xD800 \<le> uni \<and> uni \<le> 0xDBFF) \<or> \<not> low_escape_next fs"
  shows "scanstring (CHR 0x5C # CHR ''u'' # h3 # h2 # h1 # h0 # fs) = emit uni (scanstring fs)"
proof -
  consider (short) "\<forall>b u l3 l2 l1 l0 gs. fs \<noteq> b # u # l3 # l2 # l1 # l0 # gs"
    | (long) b u l3 l2 l1 l0 gs where "fs = b # u # l3 # l2 # l1 # l0 # gs"
    by blast
  then show ?thesis
  proof cases
    case short
    then show ?thesis
      unfolding scan_u [OF d] by (auto split: list.split)
  next
    case long
    show ?thesis
    proof (cases "0xD800 \<le> uni \<and> uni \<le> 0xDBFF \<and> b = CHR 0x5C \<and> u = CHR ''u''")
      case False
      then show ?thesis
        unfolding scan_u [OF d] long by auto
    next
      case True
      with nl have nl': "\<not> low_escape_next fs" by simp
      show ?thesis
      proof (cases "decode_uXXXX l3 l2 l1 l0")
        case None
        with True show ?thesis
          unfolding scan_u [OF d] long by (simp add: scan_u_bad emit_def)
      next
        case (Some uni2)
        with nl' long True have "\<not> (0xDC00 \<le> uni2 \<and> uni2 \<le> 0xDFFF)"
          by (simp add: low_escape_next_def)
        with Some True show ?thesis
          unfolding scan_u [OF d] long by auto
      qed
    qed
  qed
qed

lemma scan_u_pair:
  assumes d1: "decode_uXXXX h3 h2 h1 h0 = Some uni" and hi: "0xD800 \<le> uni \<and> uni \<le> 0xDBFF"
    and d2: "decode_uXXXX l3 l2 l1 l0 = Some uni2" and lo: "0xDC00 \<le> uni2 \<and> uni2 \<le> 0xDFFF"
  shows "scanstring (CHR 0x5C # CHR ''u'' # h3 # h2 # h1 # h0
                     # CHR 0x5C # CHR ''u'' # l3 # l2 # l1 # l0 # gs) =
         emit (0x10000 + ((uni - 0xD800) * 1024 + (uni2 - 0xDC00))) (scanstring gs)"
  using hi lo d2 unfolding scan_u [OF d1] by simp

lemma char_eq_iff_nat: "c < 256 \<Longrightarrow> (char_of (c::nat) = ch) = (c = of_char ch)"
proof
  assume c: "c < 256" and "char_of c = ch"
  then have "of_char (char_of c) = (of_char ch :: nat)" by simp
  with c show "c = of_char ch" by simp
next
  assume "c = of_char ch"
  then show "char_of c = ch" by simp
qed

lemma scan_printable:
  assumes "0x20 \<le> c" "c \<le> 0x7E" "c \<noteq> 0x22" "c \<noteq> 0x5C"
  shows "scanstring (char_of c # X) = emit c (scanstring X)"
proof -
  from assms have lt: "c < 256" by simp
  have "char_of c \<noteq> CHR 0x22" "char_of c \<noteq> CHR 0x5C"
    using assms by (simp_all add: char_eq_iff_nat [OF lt])
  moreover have "(of_char (char_of c) :: nat) = c" using lt by simp
  ultimately show ?thesis
    using assms(1) by (simp add: scan_plain)
qed

lemma surrogate_halves:
  fixes n :: nat
  assumes n: "n < 1048576"
  shows "0xD800 + n div 1024 mod 1024 < 65536"
    and "0xD800 \<le> 0xD800 + n div 1024 mod 1024 \<and> 0xD800 + n div 1024 mod 1024 \<le> 0xDBFF"
    and "0xDC00 + n mod 1024 < 65536"
    and "0xDC00 \<le> 0xDC00 + n mod 1024 \<and> 0xDC00 + n mod 1024 \<le> 0xDFFF"
    and "(0xD800 + n div 1024 mod 1024 - 0xD800) * 1024 + (0xDC00 + n mod 1024 - 0xDC00) = n"
proof -
  from n have d: "n div 1024 < 1024" by simp
  then have dm: "n div 1024 mod 1024 = n div 1024" by simp
  have m: "n mod 1024 < 1024" by simp
  show "0xD800 + n div 1024 mod 1024 < 65536" using d dm by simp
  show "0xD800 \<le> 0xD800 + n div 1024 mod 1024 \<and> 0xD800 + n div 1024 mod 1024 \<le> 0xDBFF"
    using d dm by simp
  show "0xDC00 + n mod 1024 < 65536" using m by simp
  show "0xDC00 \<le> 0xDC00 + n mod 1024 \<and> 0xDC00 + n mod 1024 \<le> 0xDFFF" using m by simp
  have "n div 1024 * 1024 + n mod 1024 = n" by simp
  then show "(0xD800 + n div 1024 mod 1024 - 0xD800) * 1024 + (0xDC00 + n mod 1024 - 0xDC00) = n"
    by (simp add: dm)
qed

lemma scan_one:
  assumes c: "c < 0x110000"
    and nl: "\<not> (0xD800 \<le> c \<and> c \<le> 0xDBFF) \<or> \<not> low_escape_next X"
  shows "scanstring (escape_char c @ X) = emit c (scanstring X)"
proof -
  consider (short) "c = 0x22 \<or> c = 0x5C \<or> c = 0x0A \<or> c = 0x0D \<or> c = 0x09 \<or> c = 0x08 \<or> c = 0x0C"
    | (plain) "0x20 \<le> c" "c \<le> 0x7E" "c \<noteq> 0x22" "c \<noteq> 0x5C"
    | (bmp) "c < 0x10000" "\<not> (0x20 \<le> c \<and> c \<le> 0x7E)"
        "c \<noteq> 0x0A" "c \<noteq> 0x0D" "c \<noteq> 0x09" "c \<noteq> 0x08" "c \<noteq> 0x0C"
    | (astral) "0x10000 \<le> c"
    by linarith
  then show ?thesis
  proof cases
    case short
    then show ?thesis
      by (elim disjE) (simp_all add: escape_char_def scan_backslash backslash_escape_def)
  next
    case plain
    then show ?thesis
      by (simp add: escape_char_def scan_printable)
  next
    case bmp
    then have esc: "escape_char c = CHR 0x5C # CHR ''u'' # hex4 c"
      by (auto simp: escape_char_def)
    show ?thesis
      unfolding esc using scan_u_single [OF decode_hex4 [OF bmp(1)] nl]
      by (simp add: hex4_cons)
  next
    case astral
    define n where "n = c - 0x10000"
    define s1 where "s1 = 0xD800 + n div 1024 mod 1024"
    define s2 where "s2 = 0xDC00 + n mod 1024"
    have "n < 1048576" using c astral by (simp add: n_def)
    note sh = surrogate_halves [OF this, folded s1_def s2_def]
    have rejoin: "0x10000 + ((s1 - 0xD800) * 1024 + (s2 - 0xDC00)) = c"
      using sh(5) astral by (simp add: n_def)
    have esc: "escape_char c = CHR 0x5C # CHR ''u'' # hex4 s1 @ CHR 0x5C # CHR ''u'' # hex4 s2"
      using astral by (simp add: escape_char_def Let_def n_def s1_def s2_def)
    show ?thesis
      unfolding esc
      using scan_u_pair [OF decode_hex4 [OF sh(1)] sh(2) decode_hex4 [OF sh(3)] sh(4), of X]
      by (simp add: hex4_cons rejoin)
  qed
qed

lemma low_next_quote: "\<not> low_escape_next (CHR 0x22 # Y)"
  by (simp add: low_escape_next_def split: list.split)

lemma low_next_u:
  "decode_uXXXX h3 h2 h1 h0 = Some uni \<Longrightarrow>
     low_escape_next (CHR 0x5C # CHR ''u'' # h3 # h2 # h1 # h0 # Y) = (0xDC00 \<le> uni \<and> uni \<le> 0xDFFF)"
  by (simp add: low_escape_next_def)

lemma low_next_other:
  "b \<noteq> CHR 0x5C \<or> u \<noteq> CHR ''u'' \<Longrightarrow> \<not> low_escape_next (b # u # Y)"
  by (auto simp: low_escape_next_def split: list.split)

lemma low_next_single:
  "b \<noteq> CHR 0x5C \<Longrightarrow> \<not> low_escape_next (b # Y)"
  by (auto simp: low_escape_next_def split: list.split)

lemma low_next_escape:
  assumes c: "c < 0x110000"
  shows "low_escape_next (escape_char c @ Y) = (0xDC00 \<le> c \<and> c \<le> 0xDFFF)"
proof -
  consider (short) "c = 0x22 \<or> c = 0x5C \<or> c = 0x0A \<or> c = 0x0D \<or> c = 0x09 \<or> c = 0x08 \<or> c = 0x0C"
    | (plain) "0x20 \<le> c" "c \<le> 0x7E" "c \<noteq> 0x22" "c \<noteq> 0x5C"
    | (bmp) "c < 0x10000" "\<not> (0x20 \<le> c \<and> c \<le> 0x7E)"
        "c \<noteq> 0x0A" "c \<noteq> 0x0D" "c \<noteq> 0x09" "c \<noteq> 0x08" "c \<noteq> 0x0C"
    | (astral) "0x10000 \<le> c"
    by linarith
  then show ?thesis
  proof cases
    case short
    then show ?thesis
      by (elim disjE) (simp_all add: escape_char_def low_next_other)
  next
    case plain
    then have lt: "c < 256" by simp
    have "char_of c \<noteq> CHR 0x5C"
      using plain by (simp add: char_eq_iff_nat [OF lt])
    with plain show ?thesis
      by (simp add: escape_char_def low_next_single)
  next
    case bmp
    then have esc: "escape_char c = CHR 0x5C # CHR ''u'' # hex4 c"
      by (auto simp: escape_char_def)
    show ?thesis
      unfolding esc using low_next_u [OF decode_hex4 [OF bmp(1)]]
      by (simp add: hex4_cons)
  next
    case astral
    define n where "n = c - 0x10000"
    define s1 where "s1 = 0xD800 + n div 1024 mod 1024"
    define s2 where "s2 = 0xDC00 + n mod 1024"
    have "n < 1048576" using c astral by (simp add: n_def)
    note sh = surrogate_halves [OF this, folded s1_def s2_def]
    have esc: "escape_char c = CHR 0x5C # CHR ''u'' # hex4 s1 @ CHR 0x5C # CHR ''u'' # hex4 s2"
      using astral by (simp add: escape_char_def Let_def n_def s1_def s2_def)
    show ?thesis
      unfolding esc using low_next_u [OF decode_hex4 [OF sh(1)]] sh(2) astral
      by (simp add: hex4_cons)
  qed
qed

lemma scan_encoded:
  "is_pystr s \<Longrightarrow>
     scanstring (concat (map escape_char s) @ CHR 0x22 # rest) = Some (join_surrogates s, rest)"
proof (induction s rule: join_surrogates.induct)
  case (1 h l cs)
  then have h: "h < 0x110000" and l: "l < 0x110000" and cs: "is_pystr cs" and lcs: "is_pystr (l # cs)"
    by (simp_all add: is_pystr_def)
  let ?tail = "concat (map escape_char cs) @ CHR 0x22 # rest"
  show ?case
  proof (cases "0xD800 \<le> h \<and> h \<le> 0xDBFF \<and> 0xDC00 \<le> l \<and> l \<le> 0xDFFF")
    case True
    then have hb: "h < 65536" and lb: "l < 65536" by simp_all
    from True have eh: "escape_char h = CHR 0x5C # CHR ''u'' # hex4 h"
      and el: "escape_char l = CHR 0x5C # CHR ''u'' # hex4 l"
      by (simp_all add: escape_char_def)
    have "scanstring (escape_char h @ escape_char l @ ?tail) =
          emit (0x10000 + ((h - 0xD800) * 1024 + (l - 0xDC00))) (scanstring ?tail)"
      unfolding eh el
      using scan_u_pair [OF decode_hex4 [OF hb] _ decode_hex4 [OF lb] _, of ?tail] True
      by (simp add: hex4_cons)
    with True "1.IH"(1) [OF True cs] show ?thesis
      by (simp add: emit_def)
  next
    case False
    have "\<not> (0xD800 \<le> h \<and> h \<le> 0xDBFF) \<or> \<not> low_escape_next (escape_char l @ ?tail)"
      using False by (auto simp: low_next_escape [OF l])
    from scan_one [OF h this] "1.IH"(2) [OF False lcs] False show ?thesis
      by (simp add: emit_def)
  qed
qed (simp_all add: scan_quote is_pystr_def scan_one low_next_quote emit_def)

lemma join_no_pair: "no_surrogate_pair s \<Longrightarrow> join_surrogates s = s"
  by (induction s rule: join_surrogates.induct) auto

lemma skip_ws_simps:
  "skip_ws [] = []"
  "skip_ws (CHR 0x20 # s) = skip_ws s"
  "skip_ws (CHR 0x22 # s) = CHR 0x22 # s"
  "skip_ws (CHR '':'' # s) = CHR '':'' # s"
  "skip_ws (CHR '','' # s) = CHR '','' # s"
  "skip_ws (CHR ''{'' # s) = CHR ''{'' # s"
  "skip_ws (CHR ''}'' # s) = CHR ''}'' # s"
  by (simp_all add: skip_ws_def is_ws_def)

lemma scan_encoded_string:
  "is_pystr s \<Longrightarrow>
     scanstring (tl (encode_basestring_ascii s) @ rest) = Some (join_surrogates s, rest)"
  using scan_encoded [of s rest] by (simp add: encode_basestring_ascii_def)

lemma encode_cons: "encode_basestring_ascii s = CHR 0x22 # tl (encode_basestring_ascii s)"
  by (simp add: encode_basestring_ascii_def)

lemma parse_value_encoded:
  "is_pystr s \<Longrightarrow>
     parse_value (encode_basestring_ascii s @ rest) = Some (JStr (join_surrogates s), rest)"
  by (subst encode_cons) (simp add: parse_value_def scan_encoded_string)

declare parse_members.simps [simp del]

lemma skip_ws_encode:
  "skip_ws (encode_basestring_ascii v @ X) = encode_basestring_ascii v @ X"
  by (simp add: encode_basestring_ascii_def skip_ws_simps)

lemma dumps_member_shape:
  "dumps_member (k, JStr v) @ X =
      CHR 0x22 # (tl (encode_basestring_ascii k)
         @ (CHR '':'' # CHR 0x20 # encode_basestring_ascii v @ X))"
  by (simp add: dumps_member_def dumps_value_def encode_basestring_ascii_def)

lemma decoded_str_member:
  "decoded_member (k, JStr v) = (join_surrogates k, JStr (join_surrogates v))"
  by (simp add: decoded_member_def)

lemma dumps_member_last:
  assumes "str_member m"
  shows "parse_members (Suc n) (dumps_member m @ CHR ''}'' # rest) = Some ([decoded_member m], rest)"
proof -
  obtain k v where m: "m = (k, JStr v)" and k: "is_pystr k" and v: "is_pystr v"
    using assms by (cases m) (auto simp: str_member_def)
  show ?thesis
    unfolding m dumps_member_shape decoded_str_member
    by (simp add: parse_members.simps scan_encoded_string [OF k] skip_ws_simps skip_ws_encode
        parse_value_encoded [OF v])
qed

lemma dumps_member_more:
  assumes "str_member m"
  shows "parse_members (Suc n) (dumps_member m @ CHR '','' # rest) =
           (case parse_members n (skip_ws rest) of
              None \<Rightarrow> None
            | Some (ms, r) \<Rightarrow> Some (decoded_member m # ms, r))"
proof -
  obtain k v where m: "m = (k, JStr v)" and k: "is_pystr k" and v: "is_pystr v"
    using assms by (cases m) (auto simp: str_member_def)
  show ?thesis
    unfolding m dumps_member_shape decoded_str_member
    by (simp add: parse_members.simps scan_encoded_string [OF k] skip_ws_simps skip_ws_encode
        parse_value_encoded [OF v])
qed

lemma dumps_members_quote:
  "\<exists>t. dumps_members (m # ms) = CHR 0x22 # t"
  by (cases ms) (simp_all add: dumps_member_def encode_basestring_ascii_def)

lemma parse_members_dumps:
  "ms \<noteq> [] \<Longrightarrow> \<forall>m \<in> set ms. str_member m \<Longrightarrow> length ms \<le> n \<Longrightarrow>
     parse_members n (dumps_members ms @ CHR ''}'' # rest) = Some (map decoded_member ms, rest)"
proof (induction ms arbitrary: n)
  case Nil
  then show ?case by simp
next
  case (Cons m ms)
  then obtain n' where n: "n = Suc n'" by (cases n) auto
  from Cons.prems have sm: "str_member m" by simp
  show ?case
  proof (cases ms)
    case Nil
    then show ?thesis
      unfolding n using dumps_member_last [OF sm, of n' rest] by simp
  next
    case (Cons m' ms')
    obtain t where t: "dumps_members ms = CHR 0x22 # t"
      using dumps_members_quote [of m' ms'] Cons by auto
    have sk: "skip_ws (dumps_members ms @ CHR ''}'' # rest) = dumps_members ms @ CHR ''}'' # rest"
      by (simp add: t skip_ws_simps)
    have IH: "parse_members n' (dumps_members ms @ CHR ''}'' # rest) =
                Some (map decoded_member ms, rest)"
      using Cons.IH [of n'] Cons.prems Cons n by simp
    have "dumps_members (m # ms) @ CHR ''}'' # rest =
            dumps_member m @ CHR '','' # (CHR 0x20 # dumps_members ms @ CHR ''}'' # rest)"
      using Cons by simp
    then show ?thesis
      unfolding n
      using dumps_member_more [OF sm, of n' "CHR 0x20 # dumps_members ms @ CHR ''}'' # rest"] IH
      by (simp add: skip_ws_simps sk)
  qed
qed

lemma length_dumps_members: "length ms \<le> length (dumps_members ms)"
proof (induction ms rule: dumps_members.induct)
  case 1
  show ?case by simp
next
  case (2 m)
  show ?case by (simp add: dumps_member_def)
next
  case (3 m m' ms)
  then show ?case by simp
qed

lemma json_loads_dumps:
  assumes "\<forall>m \<in> set d. str_member m"
  shows "json_loads (json_dumps d) = Some (dict_of_pairs (map decoded_member d))"
proof (cases d)
  case Nil
  then show ?thesis
    by (simp add: json_loads_def json_dumps_def skip_ws_simps dict_of_pairs_def)
next
  case (Cons m ms)
  obtain t where t: "dumps_members d = CHR 0x22 # t"
    using dumps_members_quote [of m ms] Cons by auto
  have len: "length d \<le> length (json_dumps d)"
    using length_dumps_members [of d] by (simp add: json_dumps_def)
  have "parse_members (length (json_dumps d)) (dumps_members d @ CHR ''}'' # []) =
          Some (map decoded_member d, [])"
    using assms Cons len by (intro parse_members_dumps) auto
  then show ?thesis
    by (simp add: json_loads_def json_dumps_def skip_ws_simps t)
qed

lemma is_pystr_py: "is_pystr (py s)"
proof -
  have "\<And>c :: char. (of_char c :: nat) < 1114112"
  proof -
    fix c :: char
    have "(of_char c :: nat) < 256" by simp
    then show "(of_char c :: nat) < 1114112" by linarith
  qed
  then show ?thesis by (auto simp: is_pystr_def py_def)
qed

lemma join_below: "\<forall>c \<in> set s. c < 0xD800 \<Longrightarrow> join_surrogates s = s"
  by (induction s rule: join_surrogates.induct) auto

lemma join_py: "join_surrogates (py s) = py s"
proof (rule join_below, rule ballI)
  fix c assume "c \<in> set (py s)"
  then obtain ch :: char where "c = of_char ch" by (auto simp: py_def)
  moreover have "(of_char ch :: nat) < 256" by simp
  ultimately show "c < 0xD800" by linarith
qed

lemma message_keys_distinct:
  "py ''type'' \<noteq> py ''requestId''" "py ''type'' \<noteq> py ''prompt''" "py ''type'' \<noteq> py ''timestamp''"
  "py ''requestId'' \<noteq> py ''prompt''" "py ''requestId'' \<noteq> py ''timestamp''"
  "py ''prompt'' \<noteq> py ''timestamp''"
  by (simp_all add: py_def)

lemma loads_dumps_message:
  assumes "is_pystr prompt"
  shows "json_loads (json_dumps (build_message (py request_id) prompt)) =
           Some (build_message (py request_id) (join_surrogates prompt))"
proof -
  have "\<forall>m \<in> set (build_message (py request_id) prompt). str_member m"
    using assms by (simp add: build_message_def str_member_def is_pystr_py)
  from json_loads_dumps [OF this] show ?thesis
    using message_keys_distinct
    by (simp add: build_message_def decoded_str_member join_py dict_of_pairs_def)
qed


subsection \<open>The prompt through \<^verbatim>\<open>json.dumps\<close> and \<^verbatim>\<open>json.loads\<close>\<close>

text \<open>
  Claim C9, as the code has it. For every prompt that is a Python string in which no high
  surrogate (U+D800 to U+DBFF) is immediately followed by a low surrogate (U+DC00 to
  U+DFFF), so in particular for every well-formed Unicode text: the envelope of main.py
  built from it, written by \<^verbatim>\<open>json.dumps\<close> and read back by \<^verbatim>\<open>json.loads\<close>, is the
  same envelope, and its \<^verbatim>\<open>prompt\<close> member is the prompt, untrimmed and unchanged.
  A prompt that holds the two halves of a surrogate pair as two code points comes back
  with the pair joined into one code point.
\<close>

theorem prompt_round_trip:
  assumes "is_pystr prompt" and "no_surrogate_pair prompt"
  shows "json_loads (json_dumps (build_message (py request_id) prompt)) =
           Some (build_message (py request_id) prompt)
       \<and> map_of (build_message (py request_id) prompt) (py ''prompt'') = Some (JStr prompt)"
proof -
  have "map_of (build_message (py request_id) prompt) (py ''prompt'') = Some (JStr prompt)"
    using message_keys_distinct by (simp add: build_message_def)
  with loads_dumps_message [OF assms(1), of request_id] join_no_pair [OF assms(2)]
  show ?thesis by simp
qed


theorem prompt_round_trip_witness:
  "json_loads (json_dumps (build_message (py ''2026-11-03T10:15:30.123456'') [104, 233, 0x1F600, 10, 32])) =
     Some (build_message (py ''2026-11-03T10:15:30.123456'') [104, 233, 0x1F600, 10, 32])
   \<and> map_of (build_message (py ''2026-11-03T10:15:30.123456'') [104, 233, 0x1F600, 10, 32])
        (py ''prompt'') = Some (JStr [104, 233, 0x1F600, 10, 32])"
  using prompt_round_trip [of "[104, 233, 0x1F600, 10, 32]" "''2026-11-03T10:15:30.123456''"]
  by (simp add: is_pystr_def)


theorem prompt_round_trip_counterexample:
  "is_pystr [0xD83D, 0xDE00]
   \<and> json_loads (json_dumps (build_message (py ''2026-11-03T10:15:30.123456'') [0xD83D, 0xDE00])) =
       Some (build_message (py ''2026-11-03T10:15:30.123456'') [0x1F600])
   \<and> map_of (build_message (py ''2026-11-03T10:15:30.123456'') [0x1F600]) (py ''prompt'')
       = Some (JStr [0x1F600])
   \<and> [0x1F600] \<noteq> [0xD83D, 0xDE00 :: nat]"
proof -
  have p: "is_pystr [0xD83D, 0xDE00]" by (simp add: is_pystr_def)
  have "map_of (build_message (py ''2026-11-03T10:15:30.123456'') [0x1F600]) (py ''prompt'')
       = Some (JStr [0x1F600])"
    using message_keys_distinct by (simp add: build_message_def)
  with loads_dumps_message [OF p, of "''2026-11-03T10:15:30.123456''"] p
  show ?thesis by simp
qed

section \<open>Properties of the bridge connection manager\<close>

lemma ensure_connected_cases:
  "ensure_connected env m =
     (if is_connected m then (True, m, [])
      else case on_connect env of
             Connected n \<Rightarrow>
               (True, m\<lparr>ws_client := Some \<lparr>conn_id = n, closed = False\<rparr>, is_connected := True\<rparr>,
                [Ev_Connect])
           | Connect_Failed e \<Rightarrow> (False, m\<lparr>is_connected := False\<rparr>, [Ev_Connect]))"
  by (simp add: ensure_connected_def connect_def split: connect_outcome.split)

lemma try_body_events:
  "snd (try_body loads tdetail env m message timeout) =
     (case ws_client m of
        None \<Rightarrow> []
      | Some ws \<Rightarrow>
          Ev_Send (json_dumps message) # (if on_send env = Sent then [Ev_Recv] else []))"
  by (simp add: try_body_def split: option.split send_outcome.split)

lemma send_prompt_unfold:
  "send_prompt loads env m prompt timeout =
     (case ensure_connected env m of
        (ok, m1, evs0) \<Rightarrow>
          if \<not> ok then (Inl (HTTPException 503 unavailable_detail), m1, evs0)
          else
            (case try_body loads timeout_detail env m1
                    (build_message (py (now_isoformat env)) prompt) timeout of
               (Inr response, evs) \<Rightarrow> (Inr response, m1, evs0 @ evs)
             | (Inl Connection_Closed, evs) \<Rightarrow>
                 (Inl (HTTPException 503 closed_detail), m1\<lparr>is_connected := False\<rparr>, evs0 @ evs)
             | (Inl e, evs) \<Rightarrow>
                 (Inl (HTTPException 500
                        (''Error communicating with VS Code bridge: '' @ str_exn e)),
                  m1, evs0 @ evs)))"
  by (simp add: send_prompt_def Let_def split: prod.split)

lemma send_prompt_mm_unfold:
  "send_prompt_mm loads env m prompt timeout kwargs =
     (case ensure_connected env m of
        (ok, m1, evs0) \<Rightarrow>
          if \<not> ok then (Inl (HTTPException 503 unavailable_detail), m1, evs0)
          else
            (case try_body loads timeout_detail_mm env m1
                    (build_message_mm kwargs (py (now_isoformat env)) prompt) timeout of
               (Inr response, evs) \<Rightarrow> (Inr response, m1, evs0 @ evs)
             | (Inl Connection_Closed, evs) \<Rightarrow>
                 (Inl (HTTPException 503 closed_detail), m1\<lparr>is_connected := False\<rparr>, evs0 @ evs)
             | (Inl e, evs) \<Rightarrow> (Inl e, m1, evs0 @ evs)))"
  by (simp add: send_prompt_mm_def Let_def split: prod.split)

lemma send_prompt_events:
  "snd (snd (send_prompt loads env m prompt timeout)) =
     (case ensure_connected env m of
        (ok, m1, evs0) \<Rightarrow>
          if \<not> ok then evs0
          else evs0 @ snd (try_body loads timeout_detail env m1
                             (build_message (py (now_isoformat env)) prompt) timeout))"
  by (simp add: send_prompt_unfold split: prod.split sum.split exn.split)

lemma send_prompt_mm_events:
  "snd (snd (send_prompt_mm loads env m prompt timeout kwargs)) =
     (case ensure_connected env m of
        (ok, m1, evs0) \<Rightarrow>
          if \<not> ok then evs0
          else evs0 @ snd (try_body loads timeout_detail_mm env m1
                             (build_message_mm kwargs (py (now_isoformat env)) prompt) timeout))"
  by (simp add: send_prompt_mm_unfold split: prod.split sum.split exn.split)

lemma send_prompt_state:
  "fst (snd (send_prompt loads env m prompt timeout)) =
     (case ensure_connected env m of
        (ok, m1, evs0) \<Rightarrow>
          if ok \<and> fst (try_body loads timeout_detail env m1
                             (build_message (py (now_isoformat env)) prompt) timeout)
                         = Inl Connection_Closed
          then m1\<lparr>is_connected := False\<rparr> else m1)"
  by (simp add: send_prompt_unfold split: prod.split sum.split exn.split)

lemma send_prompt_mm_state:
  "fst (snd (send_prompt_mm loads env m prompt timeout kwargs)) =
     (case ensure_connected env m of
        (ok, m1, evs0) \<Rightarrow>
          if ok \<and> fst (try_body loads timeout_detail_mm env m1
                             (build_message_mm kwargs (py (now_isoformat env)) prompt) timeout)
                         = Inl Connection_Closed
          then m1\<lparr>is_connected := False\<rparr> else m1)"
  by (simp add: send_prompt_mm_unfold split: prod.split sum.split exn.split)

lemma connects_simps:
  "connects [] = 0"
  "connects (Ev_Connect # evs) = Suc (connects evs)"
  "connects (Ev_Send t # evs) = connects evs"
  "connects (Ev_Recv # evs) = connects evs"
  "connects (Ev_Close # evs) = connects evs"
  by (simp_all add: connects_def)

lemma connects_try_body: "connects (snd (try_body loads tdetail env m message timeout)) = 0"
  by (simp add: try_body_events connects_simps split: option.split)

lemma connects_append: "connects (xs @ ys) = connects xs + connects ys"
  by (simp add: connects_def)


subsection \<open>One connection attempt per call\<close>

text \<open>
  Claim C6. A call of \<^verbatim>\<open>send_prompt\<close>, in either file, calls \<^verbatim>\<open>connect()\<close> at most once,
  and exactly once precisely when the connected flag is false at entry; when that
  \<^verbatim>\<open>connect()\<close> fails, the call raises the 503 "not available" exception and the
  connection attempt is its only event: nothing is sent and nothing else is tried.
\<close>

theorem send_prompt_connects_once:
  "connects (snd (snd (send_prompt loads env m prompt timeout))) \<le> 1
   \<and> (connects (snd (snd (send_prompt loads env m prompt timeout))) = 1 \<longleftrightarrow> \<not> is_connected m)
   \<and> (\<not> is_connected m \<and> (\<exists>e. on_connect env = Connect_Failed e) \<longrightarrow>
        fst (send_prompt loads env m prompt timeout) = Inl (HTTPException 503 unavailable_detail)
        \<and> snd (snd (send_prompt loads env m prompt timeout)) = [Ev_Connect])
   \<and> connects (snd (snd (send_prompt_mm loads env m prompt timeout kwargs))) \<le> 1
   \<and> (connects (snd (snd (send_prompt_mm loads env m prompt timeout kwargs))) = 1
        \<longleftrightarrow> \<not> is_connected m)
   \<and> (\<not> is_connected m \<and> (\<exists>e. on_connect env = Connect_Failed e) \<longrightarrow>
        fst (send_prompt_mm loads env m prompt timeout kwargs)
          = Inl (HTTPException 503 unavailable_detail)
        \<and> snd (snd (send_prompt_mm loads env m prompt timeout kwargs)) = [Ev_Connect])"
proof -
  have ev: "\<And>tdetail message.
      connects (case ensure_connected env m of
        (ok, m1, evs0) \<Rightarrow>
          if \<not> ok then evs0
          else evs0 @ snd (try_body loads tdetail env m1 message timeout))
      = (if is_connected m then 0 else 1)"
    by (simp add: ensure_connected_cases connects_append connects_try_body connects_simps
          split: connect_outcome.split)
  have fail: "\<And>e. \<not> is_connected m \<Longrightarrow> on_connect env = Connect_Failed e \<Longrightarrow>
      ensure_connected env m = (False, m\<lparr>is_connected := False\<rparr>, [Ev_Connect])"
    by (simp add: ensure_connected_cases)
  show ?thesis
    unfolding send_prompt_events send_prompt_mm_events ev
    by (auto simp: send_prompt_unfold send_prompt_mm_unfold fail)
qed


theorem send_prompt_connects_once_witness:
  "connects (snd (snd (send_prompt (\<lambda>raw. Inl ''unused'' :: string + pydict)
      \<lparr>on_connect = Connect_Failed ''refused'', now_isoformat = ''2026-11-03T10:15:30.123456'',
        on_send = Sent, on_recv = Received ''{}''\<rparr> init_manager (py ''hello'') 60))) = 1
   \<and> fst (send_prompt (\<lambda>raw. Inl ''unused'' :: string + pydict)
      \<lparr>on_connect = Connect_Failed ''refused'', now_isoformat = ''2026-11-03T10:15:30.123456'',
        on_send = Sent, on_recv = Received ''{}''\<rparr> init_manager (py ''hello'') 60)
       = Inl (HTTPException 503 unavailable_detail)
   \<and> snd (snd (send_prompt (\<lambda>raw. Inl ''unused'' :: string + pydict)
      \<lparr>on_connect = Connect_Failed ''refused'', now_isoformat = ''2026-11-03T10:15:30.123456'',
        on_send = Sent, on_recv = Received ''{}''\<rparr> init_manager (py ''hello'') 60))
       = [Ev_Connect]"
  using send_prompt_connects_once
    [of "\<lambda>raw. Inl ''unused'' :: string + pydict"
        "\<lparr>on_connect = Connect_Failed ''refused'', now_isoformat = ''2026-11-03T10:15:30.123456'',
          on_send = Sent, on_recv = Received ''{}''\<rparr>"
        init_manager "py ''hello''" 60 "[]"]
  by (simp add: init_manager_def connects_simps)


subsection \<open>The connected flag during the wait\<close>

lemma try_body_closed_iff:
  assumes "ws_client m \<noteq> None" and "on_send env = Sent"
  shows "fst (try_body loads tdetail env m message timeout) = Inl Connection_Closed
           \<longleftrightarrow> on_recv env = Recv_Raises Connection_Closed"
  using assms
  by (auto simp: try_body_def await_response_def
      split: option.splits recv_outcome.splits sum.splits)


text \<open>
  Claim C7. Once \<^verbatim>\<open>send_prompt\<close> of main.py has sent the request and waits, the connected
  flag is false afterwards if and only if the wait ends with the transport's
  \<^verbatim>\<open>ConnectionClosed\<close>, and then the call raises the 503 "was closed" exception; when the
  wait times out the call fails and the flag is still true.
\<close>

theorem send_prompt_connected_flag:
  assumes "on_send env = Sent"
    and "(is_connected m \<and> ws_client m \<noteq> None)
         \<or> (\<not> is_connected m \<and> (\<exists>n. on_connect env = Connected n))"
  shows "(\<not> is_connected (fst (snd (send_prompt loads env m prompt timeout)))
            \<longleftrightarrow> on_recv env = Recv_Raises Connection_Closed)
       \<and> (on_recv env = Recv_Raises Connection_Closed \<longrightarrow>
            fst (send_prompt loads env m prompt timeout) = Inl (HTTPException 503 closed_detail))
       \<and> (on_recv env = Recv_Raises Timeout_Error \<longrightarrow>
            is_connected (fst (snd (send_prompt loads env m prompt timeout)))
            \<and> (\<exists>e. fst (send_prompt loads env m prompt timeout) = Inl e))"
proof -
  from assms(2) obtain m1 evs0 where
    ec: "ensure_connected env m = (True, m1, evs0)" and c1: "is_connected m1"
    and w1: "ws_client m1 \<noteq> None"
    by (auto simp: ensure_connected_cases)
  note closed_iff = try_body_closed_iff [OF w1 assms(1), of loads timeout_detail
      "build_message (py (now_isoformat env)) prompt" timeout]
  have state: "\<not> is_connected (fst (snd (send_prompt loads env m prompt timeout)))
            \<longleftrightarrow> on_recv env = Recv_Raises Connection_Closed"
    using c1 closed_iff by (simp add: send_prompt_state ec)
  have closed: "on_recv env = Recv_Raises Connection_Closed \<Longrightarrow>
            fst (send_prompt loads env m prompt timeout) = Inl (HTTPException 503 closed_detail)"
    using w1 assms(1)
    by (auto simp: send_prompt_unfold ec try_body_def await_response_def)
  have tmo: "on_recv env = Recv_Raises Timeout_Error \<Longrightarrow>
            \<exists>e. fst (send_prompt loads env m prompt timeout) = Inl e"
    using w1 assms(1)
    by (auto simp: send_prompt_unfold ec try_body_def await_response_def)
  from state closed tmo show ?thesis by auto
qed

theorem send_prompt_connected_flag_witness:
  "\<not> is_connected (fst (snd (send_prompt (\<lambda>raw. Inl ''unused'' :: string + pydict)
      \<lparr>on_connect = Connect_Failed ''unused'', now_isoformat = ''2026-11-03T10:15:30.123456'',
        on_send = Sent, on_recv = Recv_Raises Connection_Closed\<rparr>
      \<lparr>ws_client = Some \<lparr>conn_id = 1, closed = False\<rparr>, is_connected = True\<rparr>
      (py ''hello'') 60)))
   \<and> fst (send_prompt (\<lambda>raw. Inl ''unused'' :: string + pydict)
      \<lparr>on_connect = Connect_Failed ''unused'', now_isoformat = ''2026-11-03T10:15:30.123456'',
        on_send = Sent, on_recv = Recv_Raises Connection_Closed\<rparr>
      \<lparr>ws_client = Some \<lparr>conn_id = 1, closed = False\<rparr>, is_connected = True\<rparr>
      (py ''hello'') 60) = Inl (HTTPException 503 closed_detail)
   \<and> is_connected (fst (snd (send_prompt (\<lambda>raw. Inl ''unused'' :: string + pydict)
      \<lparr>on_connect = Connect_Failed ''unused'', now_isoformat = ''2026-11-03T10:15:30.123456'',
        on_send = Sent, on_recv = Recv_Raises Timeout_Error\<rparr>
      \<lparr>ws_client = Some \<lparr>conn_id = 1, closed = False\<rparr>, is_connected = True\<rparr>
      (py ''hello'') 60)))"
proof -
  let ?loads = "\<lambda>raw :: string. Inl ''unused'' :: string + pydict"
  let ?m = "\<lparr>ws_client = Some \<lparr>conn_id = 1, closed = False\<rparr>, is_connected = True\<rparr>"
  let ?closed = "\<lparr>on_connect = Connect_Failed ''unused'',
      now_isoformat = ''2026-11-03T10:15:30.123456'',
      on_send = Sent, on_recv = Recv_Raises Connection_Closed\<rparr>"
  let ?late = "\<lparr>on_connect = Connect_Failed ''unused'',
      now_isoformat = ''2026-11-03T10:15:30.123456'',
      on_send = Sent, on_recv = Recv_Raises Timeout_Error\<rparr>"
  have a: "\<not> is_connected (fst (snd (send_prompt ?loads ?closed ?m (py ''hello'') 60)))
      \<and> fst (send_prompt ?loads ?closed ?m (py ''hello'') 60) = Inl (HTTPException 503 closed_detail)"
    using send_prompt_connected_flag [of ?closed ?m ?loads "py ''hello''" 60] by simp
  have b: "is_connected (fst (snd (send_prompt ?loads ?late ?m (py ''hello'') 60)))"
    using send_prompt_connected_flag [of ?late ?m ?loads "py ''hello''" 60] by simp
  from a b show ?thesis by simp
qed


subsection \<open>Disconnecting\<close>

lemma reachable_invariant: "reachable m \<Longrightarrow> ws_client m = None \<Longrightarrow> \<not> is_connected m"
proof (induction rule: reachable.induct)
  case reach_init
  show ?case by (simp add: init_manager_def)
next
  case (reach_connect m outcome)
  then show ?case by (cases outcome) (simp_all add: connect_def)
next
  case (reach_disconnect m)
  then show ?case by (simp add: disconnect_def split: option.splits)
next
  case (reach_send_prompt m loads env prompt timeout)
  then show ?case
    by (auto simp: send_prompt_state ensure_connected_cases
        split: if_splits connect_outcome.splits)
next
  case (reach_send_prompt_mm m loads env prompt timeout kwargs)
  then show ?case
    by (auto simp: send_prompt_mm_state ensure_connected_cases
        split: if_splits connect_outcome.splits)
qed


text \<open>
  Claim C8. From every reachable state of the manager, \<^verbatim>\<open>disconnect\<close> twice leaves the
  state \<^verbatim>\<open>disconnect\<close> once leaves, and after \<^verbatim>\<open>disconnect\<close> the connected flag is
  false, with or without a transport.
\<close>

theorem disconnect_idempotent:
  assumes "reachable m"
  shows "disconnect (disconnect m) = disconnect m \<and> \<not> is_connected (disconnect m)"
proof (cases "ws_client m")
  case None
  with reachable_invariant [OF assms] show ?thesis by (simp add: disconnect_def)
next
  case (Some ws)
  then show ?thesis by (simp add: disconnect_def)
qed


theorem disconnect_idempotent_witness:
  "reachable (snd (connect (Connected 7) init_manager))
   \<and> ws_client (snd (connect (Connected 7) init_manager)) = Some \<lparr>conn_id = 7, closed = False\<rparr>
   \<and> disconnect (disconnect (snd (connect (Connected 7) init_manager)))
       = disconnect (snd (connect (Connected 7) init_manager))
   \<and> \<not> is_connected (disconnect (snd (connect (Connected 7) init_manager)))
   \<and> ws_client init_manager = None
   \<and> disconnect (disconnect init_manager) = disconnect init_manager
   \<and> \<not> is_connected (disconnect init_manager)"
proof -
  have r0: "reachable init_manager" by (rule reach_init)
  then have r1: "reachable (snd (connect (Connected 7) init_manager))" by (rule reach_connect)
  from disconnect_idempotent [OF r0] disconnect_idempotent [OF r1] r1 show ?thesis
    by (simp add: connect_def init_manager_def)
qed

subsection \<open>The request envelope on the wire\<close>

text \<open>
  Claim C5, as the code has it. When the call gets past the connection step,
  \<^verbatim>\<open>send_prompt\<close> writes to the transport, before it waits for a reply, the
  \<^verbatim>\<open>json.dumps\<close> text of an envelope whose \<^verbatim>\<open>type\<close> is \<^verbatim>\<open>copilot_request\<close> and whose
  \<^verbatim>\<open>requestId\<close> and \<^verbatim>\<open>timestamp\<close> both hold the one string
  \<^verbatim>\<open>datetime.now().isoformat()\<close> gave, with the prompt as given. In main.py these four
  members are all; in main_multi_model.py \<^verbatim>\<open>temperature\<close> and \<^verbatim>\<open>maxTokens\<close> are always
  there too: the keyword arguments \<^verbatim>\<open>temperature\<close> and \<^verbatim>\<open>max_tokens\<close> when given, else
  0.7 and 2000.
\<close>

theorem send_prompt_envelope:
  assumes "(is_connected m \<and> ws_client m \<noteq> None)
         \<or> (\<not> is_connected m \<and> (\<exists>n. on_connect env = Connected n))"
  shows "snd (snd (send_prompt loads env m prompt timeout)) =
           (if is_connected m then [] else [Ev_Connect])
           @ [Ev_Send (json_dumps
                [(py ''type'', JStr (py ''copilot_request'')),
                 (py ''requestId'', JStr (py (now_isoformat env))),
                 (py ''prompt'', JStr prompt),
                 (py ''timestamp'', JStr (py (now_isoformat env)))])]
           @ (if on_send env = Sent then [Ev_Recv] else [])
       \<and> snd (snd (send_prompt_mm loads env m prompt timeout kwargs)) =
           (if is_connected m then [] else [Ev_Connect])
           @ [Ev_Send (json_dumps
                [(py ''type'', JStr (py ''copilot_request'')),
                 (py ''requestId'', JStr (py (now_isoformat env))),
                 (py ''prompt'', JStr prompt),
                 (py ''temperature'',
                    case map_of kwargs ''temperature'' of None \<Rightarrow> JFloat ''0.7'' | Some v \<Rightarrow> v),
                 (py ''maxTokens'',
                    case map_of kwargs ''max_tokens'' of None \<Rightarrow> JInt 2000 | Some v \<Rightarrow> v),
                 (py ''timestamp'', JStr (py (now_isoformat env)))])]
           @ (if on_send env = Sent then [Ev_Recv] else [])"
proof -
  from assms obtain m1 where
    ec: "ensure_connected env m = (True, m1, if is_connected m then [] else [Ev_Connect])"
    and w1: "ws_client m1 \<noteq> None"
    by (auto simp: ensure_connected_cases)
  from w1 show ?thesis
    by (auto simp: send_prompt_events send_prompt_mm_events ec try_body_events
        build_message_def build_message_mm_def kwargs_get_def)
qed


theorem send_prompt_envelope_witness:
  "snd (snd (send_prompt (\<lambda>raw. Inl ''unused'' :: string + pydict)
      \<lparr>on_connect = Connected 1, now_isoformat = ''2026-11-03T10:15:30.123456'',
        on_send = Sent, on_recv = Recv_Raises Timeout_Error\<rparr> init_manager (py ''hello'') 60))
     = [Ev_Connect,
        Ev_Send (json_dumps
          [(py ''type'', JStr (py ''copilot_request'')),
           (py ''requestId'', JStr (py ''2026-11-03T10:15:30.123456'')),
           (py ''prompt'', JStr (py ''hello'')),
           (py ''timestamp'', JStr (py ''2026-11-03T10:15:30.123456''))]),
        Ev_Recv]
   \<and> snd (snd (send_prompt_mm (\<lambda>raw. Inl ''unused'' :: string + pydict)
      \<lparr>on_connect = Connected 1, now_isoformat = ''2026-11-03T10:15:30.123456'',
        on_send = Sent, on_recv = Recv_Raises Timeout_Error\<rparr> init_manager (py ''hello'') 60
      [(''max_tokens'', JInt 500)]))
     = [Ev_Connect,
        Ev_Send (json_dumps
          [(py ''type'', JStr (py ''copilot_request'')),
           (py ''requestId'', JStr (py ''2026-11-03T10:15:30.123456'')),
           (py ''prompt'', JStr (py ''hello'')),
           (py ''temperature'', JFloat ''0.7''),
           (py ''maxTokens'', JInt 500),
           (py ''timestamp'', JStr (py ''2026-11-03T10:15:30.123456''))]),
        Ev_Recv]"
  using send_prompt_envelope
    [of init_manager
        "\<lparr>on_connect = Connected 1, now_isoformat = ''2026-11-03T10:15:30.123456'',
          on_send = Sent, on_recv = Recv_Raises Timeout_Error\<rparr>"
        "\<lambda>raw. Inl ''unused'' :: string + pydict" "py ''hello''" 60
        "[(''max_tokens'', JInt 500)]"]
  by (simp add: init_manager_def)


theorem send_prompt_envelope_counterexample:
  "map_of (build_message (py ''2026-11-03T10:15:30.123456'') (py ''hello'')) (py ''type'')
     = Some (JStr (py ''copilot_request''))
   \<and> JStr (py ''copilot_request'') \<noteq> JStr (py ''request'')
   \<and> map_of (build_message_mm [] (py ''2026-11-03T10:15:30.123456'') (py ''hello''))
        (py ''type'') = Some (JStr (py ''copilot_request''))
   \<and> map_of (build_message_mm [] (py ''2026-11-03T10:15:30.123456'') (py ''hello''))
        (py ''temperature'') = Some (JFloat ''0.7'')
   \<and> map_of (build_message_mm [] (py ''2026-11-03T10:15:30.123456'') (py ''hello''))
        (py ''maxTokens'') = Some (JInt 2000)"
  by (simp add: build_message_def build_message_mm_def kwargs_get_def py_def)


subsection \<open>A reply that never comes\<close>

lemma str_nat_504: "str_nat 504 = ''504''"
  by code_simp

lemma str_int_1: "str_int 1 = ''1''"
  by code_simp

lemma send_prompt_timeout:
  assumes "is_connected m" and "ws_client m \<noteq> None" and "on_send env = Sent"
    and "on_recv env = Recv_Raises Timeout_Error"
  shows "send_prompt loads env m prompt timeout =
           (Inl (HTTPException 500
                  (''Error communicating with VS Code bridge: 504: '' @ timeout_detail timeout)),
            m,
            [Ev_Send (json_dumps (build_message (py (now_isoformat env)) prompt)), Ev_Recv])"
  using assms
  by (auto simp: send_prompt_unfold ensure_connected_cases try_body_def await_response_def
      str_exn_def str_nat_504)

lemma send_prompt_mm_timeout:
  assumes "is_connected m" and "ws_client m \<noteq> None" and "on_send env = Sent"
    and "on_recv env = Recv_Raises Timeout_Error"
  shows "send_prompt_mm loads env m prompt timeout kwargs =
           (Inl (HTTPException 504 (timeout_detail_mm timeout)),
            m,
            [Ev_Send (json_dumps (build_message_mm kwargs (py (now_isoformat env)) prompt)),
             Ev_Recv])"
  using assms
  by (auto simp: send_prompt_mm_unfold ensure_connected_cases try_body_def await_response_def)


text \<open>
  Claim C1, evaluated on the code. A connected manager sends the prompt \<^verbatim>\<open>hello\<close> with a
  timeout of one second and no message arrives. In main.py the 504 raised by the inner
  handler is caught by the outer \<^verbatim>\<open>except Exception\<close> and a 500 leaves the call; in
  main_multi_model.py the outer handler re-raises and the 504 leaves the call. In both the
  manager, its transport included, is as before.
\<close>

theorem send_prompt_timeout_status:
  "send_prompt (\<lambda>raw. Inl ''unused'' :: string + pydict)
      \<lparr>on_connect = Connect_Failed ''unused'', now_isoformat = ''2026-11-03T10:15:30.123456'',
        on_send = Sent, on_recv = Recv_Raises Timeout_Error\<rparr>
      \<lparr>ws_client = Some \<lparr>conn_id = 1, closed = False\<rparr>, is_connected = True\<rparr>
      (py ''hello'') 1
     = (Inl (HTTPException 500
          ''Error communicating with VS Code bridge: 504: Timeout waiting for Copilot response after 1 seconds''),
        \<lparr>ws_client = Some \<lparr>conn_id = 1, closed = False\<rparr>, is_connected = True\<rparr>,
        [Ev_Send (json_dumps (build_message (py ''2026-11-03T10:15:30.123456'') (py ''hello''))),
         Ev_Recv])
   \<and> send_prompt_mm (\<lambda>raw. Inl ''unused'' :: string + pydict)
      \<lparr>on_connect = Connect_Failed ''unused'', now_isoformat = ''2026-11-03T10:15:30.123456'',
        on_send = Sent, on_recv = Recv_Raises Timeout_Error\<rparr>
      \<lparr>ws_client = Some \<lparr>conn_id = 1, closed = False\<rparr>, is_connected = True\<rparr>
      (py ''hello'') 1 []
     = (Inl (HTTPException 504 ''Timeout waiting for response after 1 seconds''),
        \<lparr>ws_client = Some \<lparr>conn_id = 1, closed = False\<rparr>, is_connected = True\<rparr>,
        [Ev_Send (json_dumps (build_message_mm [] (py ''2026-11-03T10:15:30.123456'')
                    (py ''hello''))),
         Ev_Recv])"
  by (simp add: send_prompt_timeout send_prompt_mm_timeout timeout_detail_def
      timeout_detail_mm_def str_int_1)

end
